theory Spec2Isabelle
  imports Main "HOL-Library.Word"
begin

unbundle bit_operations_syntax

section \<open>Constants\<close>

text \<open>
  Result codes and open flags of the embedded engine, with the values that its header
  \<^verbatim>\<open>sqlite3.h\<close> gives them, and the three macros of \<^verbatim>\<open>example.c\<close>.
\<close>

definition SQLITE_OK :: int where "SQLITE_OK = 0"
definition SQLITE_ERROR :: int where "SQLITE_ERROR = 1"
definition SQLITE_CANTOPEN :: int where "SQLITE_CANTOPEN = 14"
definition SQLITE_TOOBIG :: int where "SQLITE_TOOBIG = 18"
definition SQLITE_CONSTRAINT :: int where "SQLITE_CONSTRAINT = 19"
definition SQLITE_RANGE :: int where "SQLITE_RANGE = 25"
definition SQLITE_ROW :: int where "SQLITE_ROW = 100"
definition SQLITE_DONE :: int where "SQLITE_DONE = 101"

definition SQLITE_OPEN_READONLY :: "32 word" where "SQLITE_OPEN_READONLY = 0x00000001"
definition SQLITE_OPEN_READWRITE :: "32 word" where "SQLITE_OPEN_READWRITE = 0x00000002"
definition SQLITE_OPEN_CREATE :: "32 word" where "SQLITE_OPEN_CREATE = 0x00000004"
definition SQLITE_OPEN_MEMORY :: "32 word" where "SQLITE_OPEN_MEMORY = 0x00000080"

definition EXAMPLE_SENTINEL :: "32 word" where "EXAMPLE_SENTINEL = 8090"
definition EXAMPLE_AGG_F_SENTINEL :: "32 word" where "EXAMPLE_AGG_F_SENTINEL = 8091"
definition EXAMPLE_MAX_QUERY_LOOP_STEPS :: nat where "EXAMPLE_MAX_QUERY_LOOP_STEPS = 1048576"

section \<open>The aggregate accumulator and its callbacks\<close>

text \<open>
  \<^verbatim>\<open>struct example_agg_f_s { int sentinel; int aggregate; }\<close>. A C \<^verbatim>\<open>int\<close> is a 32-bit
  two's complement value; \<open>+\<close> on \<open>32 word\<close> wraps where the C addition overflows.
\<close>

record example_agg_f_s =
  sentinel :: "32 word"
  aggregate :: "32 word"

text \<open>
  What a callback has handed to the engine through \<^verbatim>\<open>sqlite3_result_error\<close>,
  \<^verbatim>\<open>sqlite3_result_blob\<close> or \<^verbatim>\<open>sqlite3_result_int64\<close>.
\<close>

datatype ctx_result =
    No_result
  | Result_error string
  | Result_blob "8 word list"
  | Result_int64 "64 word"

text \<open>
  The part of a \<^verbatim>\<open>sqlite3_context\<close> that the callbacks reach: the per-group aggregate
  memory (\<open>None\<close> until the first \<^verbatim>\<open>sqlite3_aggregate_context\<close> call allocates it) and
  the result slot.
\<close>

record sqlite3_context =
  ctx_agg :: "example_agg_f_s option"
  ctx_result :: ctx_result

definition new_context :: sqlite3_context where
  "new_context = \<lparr>ctx_agg = None, ctx_result = No_result\<rparr>"

text \<open>
  \<^verbatim>\<open>sqlite3_aggregate_context(ctx, sizeof(struct example_agg_f_s))\<close>: the first call of a
  group allocates the memory zero-filled, every later call returns the same memory.
  The allocation is taken to succeed; the callbacks do not test the pointer.
\<close>

definition sqlite3_aggregate_context :: "sqlite3_context \<Rightarrow> example_agg_f_s" where
  "sqlite3_aggregate_context ctx =
     (case ctx_agg ctx of
        None \<Rightarrow> \<lparr>sentinel = 0, aggregate = 0\<rparr>
      | Some a \<Rightarrow> a)"

definition sqlite3_result_error :: "sqlite3_context \<Rightarrow> string \<Rightarrow> sqlite3_context" where
  "sqlite3_result_error ctx msg = ctx\<lparr>ctx_result := Result_error msg\<rparr>"

text \<open>
  \<^verbatim>\<open>example_agg_f_step(ctx, argc, argv)\<close>. An argument is represented by the \<^verbatim>\<open>int\<close>
  that \<^verbatim>\<open>sqlite3_value_int\<close> reports for it, \<open>argc\<close> by the length of \<open>argv\<close>. The
  locals \<^verbatim>\<open>nodeid\<close> and \<^verbatim>\<open>outputid\<close> are read and never used. Writes through the
  pointer \<^verbatim>\<open>agg_f\<close> land in the context's memory.
\<close>

definition example_agg_f_step :: "sqlite3_context \<Rightarrow> 32 word list \<Rightarrow> sqlite3_context" where
  "example_agg_f_step ctx argv =
     (if length argv \<noteq> 3 then sqlite3_result_error ctx ''wrong number of arguments''
      else
        let groupid = argv ! 2;
            agg_f = sqlite3_aggregate_context ctx;
            agg_f = (if sentinel agg_f = 0
                     then agg_f\<lparr>aggregate := 80, sentinel := EXAMPLE_AGG_F_SENTINEL\<rparr>
                     else agg_f);
            ctx = ctx\<lparr>ctx_agg := Some agg_f\<rparr>
        in if EXAMPLE_AGG_F_SENTINEL \<noteq> sentinel agg_f
           then sqlite3_result_error ctx ''sentinel value is wrong''
           else ctx\<lparr>ctx_agg := Some (agg_f\<lparr>aggregate := aggregate agg_f + groupid\<rparr>)\<rparr>)"

text \<open>
  The bytes of an \<^verbatim>\<open>int\<close> and of the struct in memory: four bytes each, least
  significant byte first, \<^verbatim>\<open>sentinel\<close> at offset 0 and \<^verbatim>\<open>aggregate\<close> at offset 4, so
  that \<^verbatim>\<open>sizeof(struct example_agg_f_s)\<close> is 8 (the layout on the little-endian
  targets with a 32-bit \<^verbatim>\<open>int\<close>).
\<close>

definition int_bytes :: "32 word \<Rightarrow> 8 word list" where
  "int_bytes w = [ucast w, ucast (drop_bit 8 w), ucast (drop_bit 16 w), ucast (drop_bit 24 w)]"

definition bytes_int :: "8 word list \<Rightarrow> 32 word" where
  "bytes_int bs =
     ucast (bs ! 0) OR push_bit 8 (ucast (bs ! 1)) OR push_bit 16 (ucast (bs ! 2))
       OR push_bit 24 (ucast (bs ! 3))"

definition struct_bytes :: "example_agg_f_s \<Rightarrow> 8 word list" where
  "struct_bytes a = int_bytes (sentinel a) @ int_bytes (aggregate a)"

definition sizeof_example_agg_f_s :: nat where
  "sizeof_example_agg_f_s = 8"

text \<open>
  \<^verbatim>\<open>example_agg_f_final(ctx)\<close>: the accumulator's bytes become the result blob.
\<close>

definition example_agg_f_final :: "sqlite3_context \<Rightarrow> sqlite3_context" where
  "example_agg_f_final ctx =
     (let agg = sqlite3_aggregate_context ctx
      in ctx\<lparr>ctx_agg := Some agg,
             ctx_result := Result_blob (take sizeof_example_agg_f_s (struct_bytes agg))\<rparr>)"

text \<open>
  How the engine drives the callbacks for one group of the grouped select: the step
  callback once per contributing row, in order, stopping at the first row whose step
  reported an error; then, unless an error was reported, the final callback once.
\<close>

fun aggregate_steps :: "sqlite3_context \<Rightarrow> 32 word list list \<Rightarrow> sqlite3_context" where
  "aggregate_steps ctx [] = ctx"
| "aggregate_steps ctx (argv # rows) =
     (let ctx' = example_agg_f_step ctx argv
      in case ctx_result ctx' of
           Result_error msg \<Rightarrow> ctx'
         | _ \<Rightarrow> aggregate_steps ctx' rows)"

definition aggregate_group :: "32 word list list \<Rightarrow> sqlite3_context" where
  "aggregate_group rows =
     (let ctx = aggregate_steps new_context rows
      in case ctx_result ctx of
           Result_error msg \<Rightarrow> ctx
         | _ \<Rightarrow> example_agg_f_final ctx)"

text \<open>
  \<^verbatim>\<open>res->aggregate\<close> in \<^verbatim>\<open>example_custom_aggregate_query\<close>, where \<^verbatim>\<open>res\<close> is the pointer
  that \<^verbatim>\<open>sqlite3_column_blob\<close> returned: the \<^verbatim>\<open>int\<close> at byte offset 4 of the blob. The
  read lies inside the blob only when the blob has at least 8 bytes; otherwise
  (a shorter blob, or the null pointer of an empty one) C gives it no meaning: \<open>None\<close>.
\<close>

definition res_aggregate :: "8 word list \<Rightarrow> 32 word option" where
  "res_aggregate blob =
     (if 8 \<le> length blob then Some (bytes_int (take 4 (drop 4 blob))) else None)"

text \<open>
  The running sum that a reader of the group's result row sees: the result blob of the
  final callback, read as \<^verbatim>\<open>example_custom_aggregate_query\<close> reads it.
\<close>

definition finalized_aggregate :: "sqlite3_context \<Rightarrow> 32 word option" where
  "finalized_aggregate ctx =
     (case ctx_result ctx of Result_blob blob \<Rightarrow> res_aggregate blob | _ \<Rightarrow> None)"

section \<open>The monotonic timestamp function\<close>

text \<open>
  \<^verbatim>\<open>struct timespec\<close> on the 64-bit targets: \<^verbatim>\<open>time_t tv_sec\<close> and \<^verbatim>\<open>long tv_nsec\<close>, both
  64 bits wide.
\<close>

record timespec =
  tv_sec :: "64 word"
  tv_nsec :: "64 word"

definition sqlite3_result_int64 :: "sqlite3_context \<Rightarrow> 64 word \<Rightarrow> sqlite3_context" where
  "sqlite3_result_int64 ctx v = ctx\<lparr>ctx_result := Result_int64 v\<rparr>"

text \<open>
  The local \<^verbatim>\<open>uint64_t time\<close> of \<^verbatim>\<open>example_now_monotonic\<close>:
  \<^verbatim>\<open>time = (tp.tv_sec & 0xffffffff); time <<= 32; time |= (tp.tv_nsec & 0xffffffff);\<close>
\<close>

definition now_monotonic_time :: "timespec \<Rightarrow> 64 word" where
  "now_monotonic_time tp =
     (let time = tv_sec tp AND 0xffffffff;
          time = push_bit 32 time;
          time = time OR (tv_nsec tp AND 0xffffffff)
      in time)"

text \<open>
  \<^verbatim>\<open>example_now_monotonic(ctx, argc, argv)\<close>. The second argument of the model is what
  \<^verbatim>\<open>clock_gettime(CLOCK_MONOTONIC, &tp)\<close> answered: its return value and the reading it
  stored. \<^verbatim>\<open>sqlite3_result_int64\<close> takes the 64 bits as a signed integer.
\<close>

definition example_now_monotonic :: "sqlite3_context \<Rightarrow> int \<times> timespec \<Rightarrow> sqlite3_context" where
  "example_now_monotonic ctx clock =
     (let (ret, tp) = clock
      in if -1 = ret then sqlite3_result_error ctx ''clock_gettime returned -1''
         else sqlite3_result_int64 ctx (now_monotonic_time tp))"

section \<open>The schemas\<close>

text \<open>
  The two SQL batches of \<^verbatim>\<open>example.c\<close> are strings for the engine's parser. Here they
  are given in parsed form, statement by statement and clause by clause as the text has
  them.
\<close>

datatype sql_type = Sql_text | Sql_int | Sql_bool

datatype col_check =
    Length_is nat  \<comment> \<open>\<^verbatim>\<open>check (length(col)==n)\<close>\<close>
  | Not_below_zero  \<comment> \<open>\<^verbatim>\<open>check (0 <= col)\<close>\<close>

text \<open>A column: name, declared type, \<^verbatim>\<open>not null\<close>, check, default expression.\<close>

datatype column = Column string sql_type bool "col_check option" "string option"

text \<open>A foreign key: the referencing columns, the parent table, the parent's columns.\<close>

datatype foreign_key = Foreign_key "string list" string "string list"

record table_def =
  tbl_schema :: string
  tbl_name :: string
  tbl_columns :: "column list"
  tbl_foreign_keys :: "foreign_key list"
  tbl_primary_key :: "string list"
  tbl_without_rowid :: bool

datatype sql_cmd =
    Begin
  | Commit
  | Create_table table_def
  | Set_user_version "32 word"  \<comment> \<open>\<^verbatim>\<open>pragma user_version = n;\<close>\<close>
  | Set_foreign_keys bool  \<comment> \<open>\<^verbatim>\<open>pragma foreign_keys=n;\<close>\<close>
  | Attach_memory string  \<comment> \<open>\<^verbatim>\<open>attach ':memory:' as name;\<close>\<close>

definition devices_table :: table_def where
  "devices_table =
     \<lparr>tbl_schema = ''main'', tbl_name = ''devices'',
      tbl_columns = [Column ''deviceid'' Sql_text True (Some (Length_is 12)) None],
      tbl_foreign_keys = [],
      tbl_primary_key = [''deviceid''],
      tbl_without_rowid = True\<rparr>"

definition outputs_table :: table_def where
  "outputs_table =
     \<lparr>tbl_schema = ''main'', tbl_name = ''outputs'',
      tbl_columns = [Column ''deviceid'' Sql_text True None None,
                     Column ''outputid'' Sql_int True (Some Not_below_zero) None],
      tbl_foreign_keys = [Foreign_key [''deviceid''] ''devices'' [''deviceid'']],
      tbl_primary_key = [''deviceid'', ''outputid''],
      tbl_without_rowid = True\<rparr>"

definition groups_table :: table_def where
  "groups_table =
     \<lparr>tbl_schema = ''main'', tbl_name = ''groups'',
      tbl_columns = [Column ''deviceid'' Sql_text True None None,
                     Column ''outputid'' Sql_int True None None,
                     Column ''groupid'' Sql_int True None None],
      tbl_foreign_keys = [Foreign_key [''deviceid'', ''outputid''] ''outputs''
                            [''deviceid'', ''outputid'']],
      tbl_primary_key = [''deviceid'', ''outputid'', ''groupid''],
      tbl_without_rowid = True\<rparr>"

definition example_schema_full :: "sql_cmd list" where
  "example_schema_full =
     [Begin,
      Create_table devices_table,
      Create_table outputs_table,
      Create_table groups_table,
      Set_user_version 1,
      Commit]"

definition measured_table :: table_def where
  "measured_table =
     \<lparr>tbl_schema = ''state'', tbl_name = ''measured'',
      tbl_columns = [Column ''deviceid'' Sql_text True (Some (Length_is 12)) None,
                     Column ''outputid'' Sql_int True (Some Not_below_zero) None,
                     Column ''timestamp'' Sql_int True None (Some ''now_monotonic()''),
                     Column ''state'' Sql_bool True None None,
                     Column ''level'' Sql_int False None None],
      tbl_foreign_keys = [],
      tbl_primary_key = [''deviceid'', ''outputid''],
      tbl_without_rowid = True\<rparr>"

definition setpoint_table :: table_def where
  "setpoint_table =
     \<lparr>tbl_schema = ''state'', tbl_name = ''setpoint'',
      tbl_columns = [Column ''deviceid'' Sql_text True (Some (Length_is 12)) None,
                     Column ''outputid'' Sql_int True (Some Not_below_zero) None,
                     Column ''setstate'' Sql_bool True None None,
                     Column ''setlevel'' Sql_int False None None],
      tbl_foreign_keys = [],
      tbl_primary_key = [''deviceid'', ''outputid''],
      tbl_without_rowid = True\<rparr>"

definition example_memory_schema :: "sql_cmd list" where
  "example_memory_schema =
     [Begin,
      Create_table measured_table,
      Create_table setpoint_table,
      Commit]"

text \<open>The three statements that the program prepares.\<close>

datatype sql =
    Pragma_user_version
      \<comment> \<open>\<^verbatim>\<open>pragma user_version;\<close>\<close>
  | Insert_device
      \<comment> \<open>\<^verbatim>\<open>insert into devices(deviceid) values (?);\<close>\<close>
  | Select_example_agg_f
      \<comment> \<open>\<^verbatim>\<open>select example_agg_f(deviceid, outputid, groupid) from groups group by groups.groupid\<close>\<close>

section \<open>The embedded engine\<close>

text \<open>
  The engine is a library outside the repository. The program sees it through the result
  codes and values of its calls; this section fixes what those calls do, as far as the
  program depends on it, following the engine's documented contract. A database holds
  the schema-version marker, the table definitions and the rows of \<^verbatim>\<open>devices\<close> (the only
  table the program writes).
\<close>

record database =
  db_user_version :: "32 word"
  db_tables :: "table_def list"
  db_devices :: "string list"

definition empty_database :: database where
  "empty_database = \<lparr>db_user_version = 0, db_tables = [], db_devices = []\<rparr>"

datatype storage = On_file string | In_memory

text \<open>
  A connection (\<^verbatim>\<open>sqlite3 *\<close>): the main database and where it is stored, the attached
  databases (all memory-resident here), the connection's settings, the registered
  functions with their arities, and two counters kept for the analysis: the prepared
  statements not yet finalized, and the \<^verbatim>\<open>sqlite3_step\<close> calls served.
\<close>

record sqlite3 =
  main_storage :: storage
  main_db :: database
  attached :: "(string \<times> database) list"
  foreign_keys :: bool
  in_transaction :: bool
  registered :: "(string \<times> nat) list"
  live_stmts :: nat
  step_calls :: nat

text \<open>
  What the engine does is not a function of the modelled state alone. The environment
  supplies the rest: \<open>fault E c\<close> is the result code of a failure of the engine's own
  (input/output, locking, memory) striking calls of kind \<open>c\<close>, \<open>SQLITE_OK\<close> when there is
  none; \<open>select_step E i\<close> is what the \<open>i\<close>-th step of the grouped select reports, a result
  code and the bytes that \<^verbatim>\<open>sqlite3_column_blob\<close> returns for column 0 of the row (no
  bytes for the null pointer); \<open>serialize_len E\<close> is the length that \<^verbatim>\<open>sqlite3_serialize\<close>
  stores.
\<close>

datatype api =
    API_initialize | API_open | API_exec | API_prepare | API_bind | API_step
  | API_finalize | API_create_function

record engine_env =
  fault :: "api \<Rightarrow> int"
  select_step :: "nat \<Rightarrow> int \<times> 8 word list"
  serialize_len :: "64 word"

subsection \<open>Opening\<close>

text \<open>
  \<^verbatim>\<open>sqlite3_open_v2(path, &db, flags, NULL)\<close> against a filesystem that maps a path to the
  database stored there. With \<^verbatim>\<open>SQLITE_OPEN_MEMORY\<close> among the flags the database is
  opened as an in-memory database and the path is not used to find its content.
  Otherwise the file's database is opened, and a missing file is created empty when
  \<^verbatim>\<open>SQLITE_OPEN_CREATE\<close> is given.
\<close>

definition new_connection :: "storage \<Rightarrow> database \<Rightarrow> sqlite3" where
  "new_connection st d =
     \<lparr>main_storage = st, main_db = d, attached = [], foreign_keys = False,
      in_transaction = False, registered = [], live_stmts = 0, step_calls = 0\<rparr>"

definition sqlite3_open_v2 ::
  "engine_env \<Rightarrow> (string \<Rightarrow> database option) \<Rightarrow> string \<Rightarrow> 32 word \<Rightarrow> int \<times> sqlite3 option" where
  "sqlite3_open_v2 E fs path flags =
     (if fault E API_open \<noteq> SQLITE_OK then (fault E API_open, None)
      else if flags AND SQLITE_OPEN_MEMORY \<noteq> 0
        then (SQLITE_OK, Some (new_connection In_memory empty_database))
      else case fs path of
          Some d \<Rightarrow> (SQLITE_OK, Some (new_connection (On_file path) d))
        | None \<Rightarrow>
            if flags AND SQLITE_OPEN_CREATE \<noteq> 0
            then (SQLITE_OK, Some (new_connection (On_file path) empty_database))
            else (SQLITE_CANTOPEN, None))"

subsection \<open>Executing a batch\<close>

definition set_attached :: "string \<Rightarrow> database \<Rightarrow> (string \<times> database) list \<Rightarrow> (string \<times> database) list" where
  "set_attached name d as = map (\<lambda>(n, d'). if n = name then (n, d) else (n, d')) as"

fun exec_cmd :: "sql_cmd \<Rightarrow> sqlite3 \<Rightarrow> int \<times> sqlite3" where
  "exec_cmd Begin db =
     (if in_transaction db then (SQLITE_ERROR, db)
      else (SQLITE_OK, db\<lparr>in_transaction := True\<rparr>))"
| "exec_cmd Commit db =
     (if in_transaction db then (SQLITE_OK, db\<lparr>in_transaction := False\<rparr>)
      else (SQLITE_ERROR, db))"
| "exec_cmd (Create_table t) db =
     (if tbl_schema t = ''main'' then
        (if tbl_name t \<in> set (map tbl_name (db_tables (main_db db))) then (SQLITE_ERROR, db)
         else (SQLITE_OK,
               db\<lparr>main_db := (main_db db)\<lparr>db_tables := db_tables (main_db db) @ [t]\<rparr>\<rparr>))
      else
        (case map_of (attached db) (tbl_schema t) of
           None \<Rightarrow> (SQLITE_ERROR, db)
         | Some d \<Rightarrow>
             if tbl_name t \<in> set (map tbl_name (db_tables d)) then (SQLITE_ERROR, db)
             else (SQLITE_OK,
                   db\<lparr>attached := set_attached (tbl_schema t)
                                     (d\<lparr>db_tables := db_tables d @ [t]\<rparr>) (attached db)\<rparr>)))"
| "exec_cmd (Set_user_version v) db =
     (SQLITE_OK, db\<lparr>main_db := (main_db db)\<lparr>db_user_version := v\<rparr>\<rparr>)"
| "exec_cmd (Set_foreign_keys b) db =
     (SQLITE_OK, if in_transaction db then db else db\<lparr>foreign_keys := b\<rparr>)"
| "exec_cmd (Attach_memory name) db =
     (if in_transaction db \<or> name = ''main'' \<or> name \<in> set (map fst (attached db))
      then (SQLITE_ERROR, db)
      else (SQLITE_OK, db\<lparr>attached := attached db @ [(name, empty_database)]\<rparr>))"

text \<open>A batch runs statement by statement and stops at the first that fails.\<close>

fun exec_cmds :: "sql_cmd list \<Rightarrow> sqlite3 \<Rightarrow> int \<times> sqlite3" where
  "exec_cmds [] db = (SQLITE_OK, db)"
| "exec_cmds (c # cs) db =
     (case exec_cmd c db of
        (rc, db') \<Rightarrow> if rc \<noteq> SQLITE_OK then (rc, db') else exec_cmds cs db')"

definition sqlite3_exec :: "engine_env \<Rightarrow> sqlite3 \<Rightarrow> sql_cmd list \<Rightarrow> int \<times> sqlite3" where
  "sqlite3_exec E db batch =
     (if fault E API_exec \<noteq> SQLITE_OK then (fault E API_exec, db)
      else exec_cmds batch db)"

definition sqlite3_initialize :: "engine_env \<Rightarrow> int" where
  "sqlite3_initialize E = fault E API_initialize"

definition sqlite3_create_function_v2 ::
  "engine_env \<Rightarrow> sqlite3 \<Rightarrow> string \<Rightarrow> nat \<Rightarrow> int \<times> sqlite3" where
  "sqlite3_create_function_v2 E db name num_args =
     (if fault E API_create_function \<noteq> SQLITE_OK then (fault E API_create_function, db)
      else (SQLITE_OK, db\<lparr>registered := registered db @ [(name, num_args)]\<rparr>))"

subsection \<open>Prepared statements\<close>

text \<open>
  A statement handle: its SQL, the text bound to parameter 1 (\<open>None\<close> is SQL NULL), the
  number of steps taken, and column 0 of the current row as \<^verbatim>\<open>sqlite3_column_int\<close> and
  as \<^verbatim>\<open>sqlite3_column_blob\<close> give it.
\<close>

record sqlite3_stmt =
  stmt_sql :: sql
  stmt_text1 :: "string option"
  stmt_steps :: nat
  stmt_int0 :: "32 word"
  stmt_blob0 :: "8 word list"

text \<open>Whether the statement compiles against the connection's schema and functions.\<close>

fun compiles :: "sqlite3 \<Rightarrow> sql \<Rightarrow> bool" where
  "compiles db Pragma_user_version = True"
| "compiles db Insert_device = (devices_table \<in> set (db_tables (main_db db)))"
| "compiles db Select_example_agg_f =
     (groups_table \<in> set (db_tables (main_db db))
      \<and> map_of (registered db) ''example_agg_f'' = Some 3)"

definition sqlite3_prepare_v3 ::
  "engine_env \<Rightarrow> sqlite3 \<Rightarrow> sql \<Rightarrow> int \<times> sqlite3_stmt option \<times> sqlite3" where
  "sqlite3_prepare_v3 E db q =
     (if fault E API_prepare \<noteq> SQLITE_OK then (fault E API_prepare, None, db)
      else if \<not> compiles db q then (SQLITE_ERROR, None, db)
      else (SQLITE_OK,
            Some \<lparr>stmt_sql = q, stmt_text1 = None, stmt_steps = 0, stmt_int0 = 0,
                  stmt_blob0 = []\<rparr>,
            db\<lparr>live_stmts := Suc (live_stmts db)\<rparr>))"

text \<open>
  \<^verbatim>\<open>sqlite3_finalize(stmt)\<close> destroys the statement whatever it returns.
\<close>

definition sqlite3_finalize :: "engine_env \<Rightarrow> sqlite3 \<Rightarrow> sqlite3_stmt \<Rightarrow> int \<times> sqlite3" where
  "sqlite3_finalize E db stmt = (fault E API_finalize, db\<lparr>live_stmts := live_stmts db - 1\<rparr>)"

text \<open>
  \<^verbatim>\<open>sqlite3_bind_text(stmt, index, text, n, SQLITE_STATIC)\<close>. The argument \<open>text\<close> of the
  model is the caller's whole buffer, terminator included. A negative \<open>n\<close> binds the
  bytes before the first zero byte, any other \<open>n\<close> binds the first \<open>n\<close> bytes, zero bytes
  among them included; a length above the engine's limit of \<open>10 ^ 9\<close> bytes is refused.
  \<open>None\<close>: the bytes asked for do not all lie in the buffer, and C gives the read no
  meaning.
\<close>

definition NUL :: char where
  "NUL = CHR 0x00"

definition SQLITE_MAX_LENGTH :: int where
  "SQLITE_MAX_LENGTH = 1000000000"

definition sqlite3_bind_text ::
  "engine_env \<Rightarrow> sqlite3_stmt \<Rightarrow> nat \<Rightarrow> string \<Rightarrow> int \<Rightarrow> (int \<times> sqlite3_stmt) option" where
  "sqlite3_bind_text E stmt index text n =
     (if fault E API_bind \<noteq> SQLITE_OK then Some (fault E API_bind, stmt)
      else if index \<noteq> 1 \<or> stmt_sql stmt \<noteq> Insert_device then Some (SQLITE_RANGE, stmt)
      else if n < 0 then
        (if NUL \<in> set text
         then Some (SQLITE_OK, stmt\<lparr>stmt_text1 := Some (takeWhile (\<lambda>c. c \<noteq> NUL) text)\<rparr>)
         else None)
      else if SQLITE_MAX_LENGTH < n then Some (SQLITE_TOOBIG, stmt)
      else if nat n \<le> length text
        then Some (SQLITE_OK, stmt\<lparr>stmt_text1 := Some (take (nat n) text)\<rparr>)
      else None)"

text \<open>
  The SQL function \<^verbatim>\<open>length\<close> on a text value: the characters before the first zero
  byte, where a byte from \<^verbatim>\<open>0xc0\<close> on starts a character that takes the bytes
  \<^verbatim>\<open>0x80\<close>..\<^verbatim>\<open>0xbf\<close> after it.
\<close>

definition continuation_byte :: "char \<Rightarrow> bool" where
  "continuation_byte c = ((of_char c :: nat) div 64 = 2)"

function sql_length :: "string \<Rightarrow> nat" where
  "sql_length [] = 0"
| "sql_length (c # cs) =
     (if c = NUL then 0
      else if (0xc0 :: nat) \<le> of_char c then Suc (sql_length (dropWhile continuation_byte cs))
      else Suc (sql_length cs))"
  by pat_completeness auto
termination
  by (relation "measure length") (auto simp add: length_dropWhile_le less_Suc_eq_le)

text \<open>
  One \<^verbatim>\<open>sqlite3_step(stmt)\<close>. The pragma yields one row holding the marker. The insert
  is subject to the constraints that \<^verbatim>\<open>example_schema_full\<close> puts on \<^verbatim>\<open>devices\<close>:
  \<^verbatim>\<open>not null\<close>, \<^verbatim>\<open>check (length(deviceid)==12)\<close> and the primary key. The grouped
  select reports what the environment says.
\<close>

definition sqlite3_step ::
  "engine_env \<Rightarrow> sqlite3 \<Rightarrow> sqlite3_stmt \<Rightarrow> int \<times> sqlite3_stmt \<times> sqlite3" where
  "sqlite3_step E db stmt =
     (let db = db\<lparr>step_calls := Suc (step_calls db)\<rparr>;
          stmt' = stmt\<lparr>stmt_steps := Suc (stmt_steps stmt)\<rparr>
      in case stmt_sql stmt of
           Select_example_agg_f \<Rightarrow>
             (case select_step E (stmt_steps stmt) of
                (rc, blob) \<Rightarrow> (rc, stmt'\<lparr>stmt_blob0 := blob\<rparr>, db))
         | Pragma_user_version \<Rightarrow>
             if fault E API_step \<noteq> SQLITE_OK then (fault E API_step, stmt', db)
             else if stmt_steps stmt = 0
               then (SQLITE_ROW, stmt'\<lparr>stmt_int0 := db_user_version (main_db db)\<rparr>, db)
             else (SQLITE_DONE, stmt', db)
         | Insert_device \<Rightarrow>
             if fault E API_step \<noteq> SQLITE_OK then (fault E API_step, stmt', db)
             else
               (case stmt_text1 stmt of
                  None \<Rightarrow> (SQLITE_CONSTRAINT, stmt', db)
                | Some v \<Rightarrow>
                    if sql_length v \<noteq> 12 \<or> v \<in> set (db_devices (main_db db))
                    then (SQLITE_CONSTRAINT, stmt', db)
                    else (SQLITE_DONE, stmt',
                          db\<lparr>main_db := (main_db db)\<lparr>db_devices :=
                                            db_devices (main_db db) @ [v]\<rparr>\<rparr>)))"

definition sqlite3_column_int :: "sqlite3_stmt \<Rightarrow> nat \<Rightarrow> 32 word" where
  "sqlite3_column_int stmt col = (if col = 0 then stmt_int0 stmt else 0)"

definition sqlite3_column_blob :: "sqlite3_stmt \<Rightarrow> nat \<Rightarrow> 8 word list" where
  "sqlite3_column_blob stmt col = (if col = 0 then stmt_blob0 stmt else [])"

subsection \<open>Serializing\<close>

text \<open>
  \<^verbatim>\<open>sqlite3_serialize(db, schema, &db_len, 0)\<close>: the model gives the value that the call
  leaves in \<^verbatim>\<open>db_len\<close>, a signed 64-bit integer; the buffer it returns is not modelled.
\<close>

definition sqlite3_serialize :: "engine_env \<Rightarrow> sqlite3 \<Rightarrow> string \<Rightarrow> 64 word" where
  "sqlite3_serialize E db schema = serialize_len E"

section \<open>The program\<close>

text \<open>
  The functions of \<^verbatim>\<open>example.c\<close>. Each takes \<^verbatim>\<open>struct example_s *example\<close>, of which it
  uses the connection \<^verbatim>\<open>example->db\<close> alone (the field \<^verbatim>\<open>sentinel\<close> is never read or
  written): the model passes the connection and returns it next to the C return value.
  Writes to the system log are left out, except the values that the aggregate query
  logs. Where a function leaves the meaning of C (a read outside a buffer), its result
  is \<open>None\<close>.
\<close>

definition example_init_schema_migration_full :: "engine_env \<Rightarrow> sqlite3 \<Rightarrow> int \<times> sqlite3" where
  "example_init_schema_migration_full E db =
     (case sqlite3_exec E db example_schema_full of
        (ret, db) \<Rightarrow> if SQLITE_OK \<noteq> ret then (-1, db) else (0, db))"

text \<open>
  \<^verbatim>\<open>example_init_schema_migration\<close>. (A successful prepare that hands back no statement
  would make \<^verbatim>\<open>sqlite3_step\<close> refuse the null handle, and the function return -1 there.)
\<close>

definition example_init_schema_migration :: "engine_env \<Rightarrow> sqlite3 \<Rightarrow> int \<times> sqlite3" where
  "example_init_schema_migration E db =
     (case sqlite3_prepare_v3 E db Pragma_user_version of
        (ret, stmt, db) \<Rightarrow>
          if SQLITE_OK \<noteq> ret then (-1, db)
          else case stmt of
            None \<Rightarrow> (-1, db)
          | Some stmt \<Rightarrow>
              (case sqlite3_step E db stmt of
                 (ret, stmt, db) \<Rightarrow>
                   if SQLITE_ROW \<noteq> ret then (-1, db)
                   else
                     let sqlite3_user_version = sqlite3_column_int stmt 0
                     in case sqlite3_finalize E db stmt of
                          (ret, db) \<Rightarrow>
                            if SQLITE_OK \<noteq> ret then (-1, db)
                            else if 0 = sqlite3_user_version then
                              (case example_init_schema_migration_full E db of
                                 (ret, db) \<Rightarrow> if -1 = ret then (-1, db) else (0, db))
                            else if 1 = sqlite3_user_version then (0, db)
                            else (-1, db)))"

definition example_init_schema_memory :: "engine_env \<Rightarrow> sqlite3 \<Rightarrow> int \<times> sqlite3" where
  "example_init_schema_memory E db =
     (case sqlite3_exec E db [Attach_memory ''state''] of
        (ret, db) \<Rightarrow>
          if SQLITE_OK \<noteq> ret then (-1, db)
          else case sqlite3_exec E db example_memory_schema of
                 (ret, db) \<Rightarrow> if SQLITE_OK \<noteq> ret then (-1, db) else (0, db))"

definition example_init_custom_agg_function :: "engine_env \<Rightarrow> sqlite3 \<Rightarrow> int \<times> sqlite3" where
  "example_init_custom_agg_function E db =
     (case sqlite3_create_function_v2 E db ''example_agg_f'' 3 of
        (ret, db) \<Rightarrow> if SQLITE_OK \<noteq> ret then (-1, db) else (0, db))"

definition example_init_custom_now_monotonic_function :: "engine_env \<Rightarrow> sqlite3 \<Rightarrow> int \<times> sqlite3" where
  "example_init_custom_now_monotonic_function E db =
     (case sqlite3_create_function_v2 E db ''now_monotonic'' 0 of
        (ret, db) \<Rightarrow> if SQLITE_OK \<noteq> ret then (-1, db) else (0, db))"

text \<open>
  The flags that \<^verbatim>\<open>example_init\<close> passes to \<^verbatim>\<open>sqlite3_open_v2\<close>:
  \<^verbatim>\<open>SQLITE_OPEN_READWRITE | SQLITE_OPEN_CREATE | SQLITE_OPEN_MEMORY\<close>.
\<close>

definition example_init_open_flags :: "32 word" where
  "example_init_open_flags =
     SQLITE_OPEN_READWRITE OR SQLITE_OPEN_CREATE OR SQLITE_OPEN_MEMORY"

text \<open>
  \<^verbatim>\<open>example_init\<close>, run against the filesystem \<open>fs\<close>. The only function it registers
  is the aggregate: \<^verbatim>\<open>example_init_custom_now_monotonic_function\<close> is defined and never
  called.
\<close>

definition example_init ::
  "engine_env \<Rightarrow> (string \<Rightarrow> database option) \<Rightarrow> int \<times> sqlite3 option" where
  "example_init E fs =
     (let ret = sqlite3_initialize E
      in if SQLITE_OK \<noteq> ret then (-1, None)
         else case sqlite3_open_v2 E fs ''db.sqlite'' example_init_open_flags of
           (ret, conn) \<Rightarrow>
             if SQLITE_OK \<noteq> ret then (-1, conn)
             else case conn of
               None \<Rightarrow> (-1, None)
             | Some db \<Rightarrow>
                 (case sqlite3_exec E db [Set_foreign_keys True] of
                    (ret, db) \<Rightarrow>
                      if SQLITE_OK \<noteq> ret then (-1, Some db)
                      else case example_init_schema_migration E db of
                        (ret, db) \<Rightarrow>
                          if -1 = ret then (-1, Some db)
                          else case example_init_schema_memory E db of
                            (ret, db) \<Rightarrow>
                              if -1 = ret then (-1, Some db)
                              else case example_init_custom_agg_function E db of
                                (ret, db) \<Rightarrow>
                                  if -1 = ret then (-1, Some db) else (0, Some db)))"

text \<open>
  \<^verbatim>\<open>example_device_new(example, deviceid, deviceid_len)\<close>. The \<^verbatim>\<open>uint32_t deviceid_len\<close>
  becomes the \<^verbatim>\<open>int\<close> parameter of \<^verbatim>\<open>sqlite3_bind_text\<close>: the same 32 bits, read as
  signed. The result of the bind is compared with -1, as the source does.
\<close>

definition example_device_new ::
  "engine_env \<Rightarrow> sqlite3 \<Rightarrow> string \<Rightarrow> 32 word \<Rightarrow> (int \<times> sqlite3) option" where
  "example_device_new E db deviceid deviceid_len =
     (case sqlite3_prepare_v3 E db Insert_device of
        (ret, stmt, db) \<Rightarrow>
          if SQLITE_OK \<noteq> ret then Some (-1, db)
          else case stmt of
            None \<Rightarrow> Some (-1, db)
          | Some stmt \<Rightarrow>
              (case sqlite3_bind_text E stmt 1 deviceid (sint deviceid_len) of
                 None \<Rightarrow> None
               | Some (ret, stmt) \<Rightarrow>
                   if -1 = ret then Some (-1, db)
                   else case sqlite3_step E db stmt of
                     (ret, stmt, db) \<Rightarrow>
                       if SQLITE_DONE \<noteq> ret then Some (-1, db)
                       else case sqlite3_finalize E db stmt of
                         (ret, db) \<Rightarrow>
                           if SQLITE_OK \<noteq> ret then Some (-1, db) else Some (0, db)))"

text \<open>
  \<^verbatim>\<open>example_custom_aggregate_query\<close>. The result carries the values logged as
  \<^verbatim>\<open>res->aggregate=%d\<close>, in order. The \<^verbatim>\<open>for\<close> loop is \<open>aggregate_query_loop\<close>, with the
  loop counter \<open>i\<close> and the local \<^verbatim>\<open>ret\<close> as arguments; \<open>aggregate_query_end\<close> is the code
  after the loop, reached by \<^verbatim>\<open>break\<close> or when the counter reaches the cap.
\<close>

definition aggregate_query_end ::
  "int \<Rightarrow> sqlite3 \<Rightarrow> int list \<Rightarrow> (int \<times> sqlite3 \<times> int list) option" where
  "aggregate_query_end ret db logged =
     (if SQLITE_DONE \<noteq> ret then Some (-1, db, logged) else Some (0, db, logged))"

function aggregate_query_loop ::
  "engine_env \<Rightarrow> nat \<Rightarrow> int \<Rightarrow> sqlite3_stmt \<Rightarrow> sqlite3 \<Rightarrow> int list
     \<Rightarrow> (int \<times> sqlite3 \<times> int list) option" where
  "aggregate_query_loop E i ret stmt db logged =
     (if i < EXAMPLE_MAX_QUERY_LOOP_STEPS then
        (case sqlite3_step E db stmt of
           (ret, stmt, db) \<Rightarrow>
             if SQLITE_DONE = ret then aggregate_query_end ret db logged
             else if SQLITE_ROW \<noteq> ret then Some (-1, db, logged)
             else (case res_aggregate (sqlite3_column_blob stmt 0) of
                     None \<Rightarrow> None
                   | Some v \<Rightarrow>
                       aggregate_query_loop E (Suc i) ret stmt db (logged @ [sint v])))
      else aggregate_query_end ret db logged)"
  by pat_completeness auto
termination
  by (relation "measure (\<lambda>(E, i, ret, stmt, db, logged). EXAMPLE_MAX_QUERY_LOOP_STEPS - i)")
    auto

definition example_custom_aggregate_query ::
  "engine_env \<Rightarrow> sqlite3 \<Rightarrow> (int \<times> sqlite3 \<times> int list) option" where
  "example_custom_aggregate_query E db =
     (case sqlite3_prepare_v3 E db Select_example_agg_f of
        (ret, stmt, db) \<Rightarrow>
          if SQLITE_OK \<noteq> ret then Some (-1, db, [])
          else case stmt of
            None \<Rightarrow> Some (-1, db, [])
          | Some stmt \<Rightarrow> aggregate_query_loop E 0 ret stmt db [])"

text \<open>
  \<^verbatim>\<open>example_serialize\<close>. The buffer pointer is never inspected. The result is the return
  value and the number printed by \<^verbatim>\<open>printf("db_len=%lld\n", db_len)\<close>, if that call is
  reached.
\<close>

definition example_serialize :: "engine_env \<Rightarrow> sqlite3 \<Rightarrow> int \<times> int option" where
  "example_serialize E db =
     (let db_len = sqlite3_serialize E db ''main''
      in if -1 = db_len then (-1, None)
         else (0, Some (sint db_len)))"

text \<open>
  \<^verbatim>\<open>main\<close>: the four calls in order, against the filesystem \<open>fs\<close>; the identifier is the
  literal \<^verbatim>\<open>"0123456789012"\<close> with its terminator, the length 12.
\<close>

definition main :: "engine_env \<Rightarrow> (string \<Rightarrow> database option) \<Rightarrow> (int \<times> sqlite3 option) option" where
  "main E fs =
     (case example_init E fs of
        (ret, conn) \<Rightarrow>
          if -1 = ret then Some (-1, conn)
          else case conn of
            None \<Rightarrow> Some (-1, None)
          | Some db \<Rightarrow>
              (case example_device_new E db (''0123456789012'' @ [NUL]) 12 of
                 None \<Rightarrow> None
               | Some (ret, db) \<Rightarrow>
                   if -1 = ret then Some (-1, Some db)
                   else case example_custom_aggregate_query E db of
                     None \<Rightarrow> None
                   | Some (ret, db, logged) \<Rightarrow>
                       if -1 = ret then Some (-1, Some db)
                       else case example_serialize E db of
                         (ret, printed) \<Rightarrow>
                           if -1 = ret then Some (-1, Some db) else Some (0, Some db)))"

section \<open>Reference runs\<close>

text \<open>
  An engine without failures of its own, whose grouped select finds no group (the
  program never fills \<^verbatim>\<open>groups\<close>), and a filesystem without any database file.
\<close>

definition healthy_engine :: engine_env where
  "healthy_engine =
     \<lparr>fault = (\<lambda>c. SQLITE_OK), select_step = (\<lambda>i. (SQLITE_DONE, [])), serialize_len = 4096\<rparr>"

definition no_files :: "string \<Rightarrow> database option" where
  "no_files = (\<lambda>path. None)"

text \<open>The connection as \<^verbatim>\<open>example_init\<close> leaves it in that setting.\<close>

definition initialized :: sqlite3 where
  "initialized =
     \<lparr>main_storage = In_memory,
      main_db = \<lparr>db_user_version = 1,
                 db_tables = [devices_table, outputs_table, groups_table],
                 db_devices = []\<rparr>,
      attached = [(''state'', \<lparr>db_user_version = 0,
                               db_tables = [measured_table, setpoint_table],
                               db_devices = []\<rparr>)],
      foreign_keys = True, in_transaction = False,
      registered = [(''example_agg_f'', 3)],
      live_stmts = 0, step_calls = 1\<rparr>"

text \<open>
  An engine whose grouped select never runs out of rows, each row the accumulator of a
  one-row group of index 5; one whose select yields a single row of twelve bytes, the
  same accumulator followed by four more bytes; and one whose select yields a single
  row without bytes (the null pointer that \<^verbatim>\<open>sqlite3_column_blob\<close> returns for an SQL
  NULL).
\<close>

definition endless_engine :: engine_env where
  "endless_engine =
     \<lparr>fault = (\<lambda>c. SQLITE_OK),
      select_step = (\<lambda>i. (SQLITE_ROW, [155, 31, 0, 0, 85, 0, 0, 0])),
      serialize_len = 4096\<rparr>"

definition long_row_engine :: engine_env where
  "long_row_engine =
     \<lparr>fault = (\<lambda>c. SQLITE_OK),
      select_step = (\<lambda>i. if i = 0 then (SQLITE_ROW, [155, 31, 0, 0, 85, 0, 0, 0, 1, 2, 3, 4])
                          else (SQLITE_DONE, [])),
      serialize_len = 4096\<rparr>"

definition null_row_engine :: engine_env where
  "null_row_engine =
     \<lparr>fault = (\<lambda>c. SQLITE_OK),
      select_step = (\<lambda>i. if i = 0 then (SQLITE_ROW, []) else (SQLITE_DONE, [])),
      serialize_len = 4096\<rparr>"

text \<open>An engine that is busy (\<^verbatim>\<open>SQLITE_BUSY\<close>, 5) whenever a statement is stepped.\<close>

definition SQLITE_BUSY :: int where "SQLITE_BUSY = 5"

definition busy_engine :: engine_env where
  "busy_engine =
     \<lparr>fault = (\<lambda>c. if c = API_step then SQLITE_BUSY else SQLITE_OK),
      select_step = (\<lambda>i. (SQLITE_BUSY, [])),
      serialize_len = 4096\<rparr>"

text \<open>
  The filesystem as a run of \<^verbatim>\<open>main\<close> would leave it if the main database were kept in
  the file \<^verbatim>\<open>db.sqlite\<close>: marker 1, the three tables, the one device.
\<close>

definition files_of_previous_run :: "string \<Rightarrow> database option" where
  "files_of_previous_run =
     (\<lambda>path. if path = ''db.sqlite''
             then Some \<lparr>db_user_version = 1,
                        db_tables = [devices_table, outputs_table, groups_table],
                        db_devices = [''012345678901'']\<rparr>
             else None)"

section \<open>Properties of the aggregate\<close>

lemma bytes_int_int_bytes: "bytes_int (int_bytes w) = w"
proof -
  have "bit (bytes_int (int_bytes w)) n = bit w n" if "n < 32" for n
    using that unfolding bytes_int_def int_bytes_def
    by (cases "n < 8"; cases "n < 16"; cases "n < 24") (auto simp add: bit_simps)
  then show ?thesis
    by (auto intro: bit_word_eqI)
qed

lemma length_int_bytes: "length (int_bytes w) = 4"
  by (simp add: int_bytes_def)

lemma length_struct_bytes: "length (struct_bytes a) = 8"
  by (simp add: struct_bytes_def length_int_bytes)

lemma res_aggregate_struct_bytes: "res_aggregate (struct_bytes a) = Some (aggregate a)"
  by (simp add: res_aggregate_def struct_bytes_def length_int_bytes bytes_int_int_bytes)

lemma step_started:
  assumes "ctx_agg ctx = Some a" "sentinel a = EXAMPLE_AGG_F_SENTINEL" "length argv = 3"
  shows "example_agg_f_step ctx argv =
           ctx\<lparr>ctx_agg := Some (a\<lparr>aggregate := aggregate a + argv ! 2\<rparr>)\<rparr>"
  using assms
  by (simp add: example_agg_f_step_def sqlite3_aggregate_context_def
      EXAMPLE_AGG_F_SENTINEL_def Let_def)

lemma step_first:
  assumes "sentinel (sqlite3_aggregate_context ctx) = 0" "length argv = 3"
  shows "example_agg_f_step ctx argv =
           ctx\<lparr>ctx_agg := Some \<lparr>sentinel = EXAMPLE_AGG_F_SENTINEL, aggregate = 80 + argv ! 2\<rparr>\<rparr>"
  using assms
  by (simp add: example_agg_f_step_def EXAMPLE_AGG_F_SENTINEL_def Let_def)

lemma step_wrong_guard:
  assumes "ctx_agg ctx = Some a" "sentinel a \<noteq> 0" "sentinel a \<noteq> EXAMPLE_AGG_F_SENTINEL"
  shows "example_agg_f_step ctx argv =
           ctx\<lparr>ctx_result := Result_error
                  (if length argv \<noteq> 3 then ''wrong number of arguments''
                   else ''sentinel value is wrong'')\<rparr>"
  using assms
  by (simp add: example_agg_f_step_def sqlite3_aggregate_context_def
      sqlite3_result_error_def Let_def)

text \<open>Once the guard is set, a run of well-formed rows only adds to the sum.\<close>

lemma aggregate_steps_started:
  assumes "ctx_agg ctx = Some a" "sentinel a = EXAMPLE_AGG_F_SENTINEL"
    and "ctx_result ctx = No_result" and "\<forall>argv \<in> set rows. length argv = 3"
  shows "aggregate_steps ctx rows =
           ctx\<lparr>ctx_agg := Some (a\<lparr>aggregate := aggregate a
                                     + sum_list (map (\<lambda>argv. argv ! 2) rows)\<rparr>)\<rparr>"
  using assms
proof (induction rows arbitrary: ctx a)
  case Nil
  then show ?case by simp
next
  case (Cons argv rows)
  let ?a = "a\<lparr>aggregate := aggregate a + argv ! 2\<rparr>"
  let ?ctx = "ctx\<lparr>ctx_agg := Some ?a\<rparr>"
  have st: "example_agg_f_step ctx argv = ?ctx"
    using Cons.prems by (simp add: step_started)
  have "aggregate_steps ?ctx rows =
          ?ctx\<lparr>ctx_agg := Some (?a\<lparr>aggregate := aggregate ?a
                                      + sum_list (map (\<lambda>argv. argv ! 2) rows)\<rparr>)\<rparr>"
    using Cons.prems by (intro Cons.IH) simp_all
  then show ?case
    using Cons.prems(3) by (simp add: st add.assoc)
qed

lemma aggregate_steps_new:
  assumes "rows \<noteq> []" and "\<forall>argv \<in> set rows. length argv = 3"
  shows "aggregate_steps new_context rows =
           \<lparr>ctx_agg = Some \<lparr>sentinel = EXAMPLE_AGG_F_SENTINEL,
                            aggregate = 80 + sum_list (map (\<lambda>argv. argv ! 2) rows)\<rparr>,
            ctx_result = No_result\<rparr>"
proof (cases rows)
  case Nil
  with assms show ?thesis by simp
next
  case (Cons argv rest)
  let ?a = "\<lparr>sentinel = EXAMPLE_AGG_F_SENTINEL, aggregate = 80 + argv ! 2\<rparr>"
  let ?ctx = "new_context\<lparr>ctx_agg := Some ?a\<rparr>"
  have st: "example_agg_f_step new_context argv = ?ctx"
    using assms(2) Cons
    by (simp add: step_first new_context_def sqlite3_aggregate_context_def)
  have "aggregate_steps ?ctx rest =
          ?ctx\<lparr>ctx_agg := Some (?a\<lparr>aggregate := aggregate ?a
                                      + sum_list (map (\<lambda>argv. argv ! 2) rest)\<rparr>)\<rparr>"
    using assms(2) Cons by (intro aggregate_steps_started) (simp_all add: new_context_def)
  with st show ?thesis
    using Cons by (simp add: new_context_def add.assoc)
qed

lemma word_of_int_sum_list_sint:
  "word_of_int (sum_list (map sint ws)) = (sum_list ws :: 32 word)"
  by (induction ws) simp_all

text \<open>
  C2 (aggregate correctness). For a group with at least one contributing row, each row
  passing three arguments, the running sum read from the finalized result blob is 80
  plus the sum of the rows' group-index values, in the 32-bit arithmetic of the C
  \<^verbatim>\<open>int\<close>; and whenever that sum, taken over the integers, fits a C \<^verbatim>\<open>int\<close>, the
  signed value read is exactly 80 plus the integer sum.
\<close>

theorem aggregate_correctness:
  assumes "rows \<noteq> []" and "\<forall>argv \<in> set rows. length argv = 3"
  shows "finalized_aggregate (aggregate_group rows)
           = Some (80 + sum_list (map (\<lambda>argv. argv ! 2) rows))
       \<and> (- (2 ^ 31) \<le> 80 + sum_list (map (\<lambda>argv. sint (argv ! 2)) rows)
            \<and> 80 + sum_list (map (\<lambda>argv. sint (argv ! 2)) rows) < 2 ^ 31
          \<longrightarrow> map_option sint (finalized_aggregate (aggregate_group rows))
                = Some (80 + sum_list (map (\<lambda>argv. sint (argv ! 2)) rows)))"
proof -
  let ?s = "80 + sum_list (map (\<lambda>argv. argv ! 2) rows) :: 32 word"
  let ?i = "80 + sum_list (map (\<lambda>argv. sint (argv ! 2)) rows)"
  have w: "finalized_aggregate (aggregate_group rows) = Some ?s"
    using assms
    by (simp add: aggregate_group_def aggregate_steps_new example_agg_f_final_def
        sqlite3_aggregate_context_def finalized_aggregate_def sizeof_example_agg_f_s_def
        Let_def length_struct_bytes res_aggregate_struct_bytes)
  have "word_of_int ?i = ?s"
    using word_of_int_sum_list_sint [of "map (\<lambda>argv. argv ! 2) rows"]
    by (simp add: comp_def)
  then have "sint ?s = ?i" if "- (2 ^ 31) \<le> ?i" "?i < 2 ^ 31"
    using that sint_sbintrunc' [of ?i, where 'a = 32] signed_take_bit_int_eq_self [of 31 ?i]
    by simp
  with w show ?thesis
    by simp
qed

text \<open>A group with the single row of group index 5 finalizes to 85.\<close>

theorem aggregate_correctness_witness:
  "[[1, 0, 5]] \<noteq> ([] :: 32 word list list)
   \<and> list_all (\<lambda>argv. length argv = 3) [[1, 0, 5 :: 32 word]]
   \<and> finalized_aggregate (aggregate_group [[1, 0, 5]]) = Some 85
   \<and> map_option sint (finalized_aggregate (aggregate_group [[1, 0, 5]])) = Some 85"
  using aggregate_correctness [of "[[1, 0, 5]]"] by simp

text \<open>
  C6 (guard integrity). A step that finds the guard neither zero nor the sentinel 8091
  reports an error to the engine and leaves the accumulator as it found it, whatever
  the arguments. A step with three arguments that finds the guard zero sets the guard to
  the sentinel and restarts the sum from the baseline 80, to which the row's group
  index is then added; it reports no error.
\<close>

theorem guard_integrity:
  "(ctx_agg ctx = Some a \<and> sentinel a \<noteq> 0 \<and> sentinel a \<noteq> EXAMPLE_AGG_F_SENTINEL
      \<longrightarrow> (\<exists>msg. ctx_result (example_agg_f_step ctx argv) = Result_error msg)
          \<and> ctx_agg (example_agg_f_step ctx argv) = Some a)
   \<and> (sentinel (sqlite3_aggregate_context ctx) = 0 \<and> length argv = 3
      \<longrightarrow> ctx_agg (example_agg_f_step ctx argv)
            = Some \<lparr>sentinel = 8091, aggregate = 80 + argv ! 2\<rparr>
          \<and> ctx_result (example_agg_f_step ctx argv) = ctx_result ctx)"
  by (simp add: step_wrong_guard step_first EXAMPLE_AGG_F_SENTINEL_def)

theorem guard_integrity_witness:
  "(\<exists>msg. ctx_result (example_agg_f_step
              \<lparr>ctx_agg = Some \<lparr>sentinel = 7, aggregate = 90\<rparr>, ctx_result = No_result\<rparr>
              [1, 0, 5]) = Result_error msg)
   \<and> ctx_agg (example_agg_f_step
              \<lparr>ctx_agg = Some \<lparr>sentinel = 7, aggregate = 90\<rparr>, ctx_result = No_result\<rparr>
              [1, 0, 5]) = Some \<lparr>sentinel = 7, aggregate = 90\<rparr>
   \<and> ctx_agg (example_agg_f_step new_context [1, 0, 5])
        = Some \<lparr>sentinel = 8091, aggregate = 85\<rparr>
   \<and> ctx_result (example_agg_f_step new_context [1, 0, 5]) = No_result"
  using guard_integrity [of "\<lparr>ctx_agg = Some \<lparr>sentinel = 7, aggregate = 90\<rparr>,
                               ctx_result = No_result\<rparr>"
                            "\<lparr>sentinel = 7, aggregate = 90\<rparr>" "[1, 0, 5]"]
        guard_integrity [of new_context "\<lparr>sentinel = 0, aggregate = 0\<rparr>" "[1, 0, 5]"]
  by (simp add: EXAMPLE_AGG_F_SENTINEL_def new_context_def sqlite3_aggregate_context_def)

section \<open>Properties of the timestamp function\<close>

lemma now_monotonic_time_halves:
  "drop_bit 32 (now_monotonic_time tp) = take_bit 32 (tv_sec tp)
   \<and> take_bit 32 (now_monotonic_time tp) = take_bit 32 (tv_nsec tp)"
proof -
  have m: "(0xffffffff :: 64 word) = mask 32"
    by (simp add: mask_eq_exp_minus_1)
  show ?thesis
    unfolding now_monotonic_time_def Let_def m
    by (auto intro!: bit_word_eqI simp add: bit_simps)
qed

lemma unat_now_monotonic_time:
  "unat (now_monotonic_time tp)
     = unat (take_bit 32 (tv_sec tp)) * 2 ^ 32 + unat (take_bit 32 (tv_nsec tp))"
proof -
  let ?v = "now_monotonic_time tp"
  have n: "unat ?v = drop_bit 32 (unat ?v) * 2 ^ 32 + take_bit 32 (unat ?v)"
    by (simp add: drop_bit_eq_div take_bit_eq_mod)
  have d: "drop_bit 32 (unat ?v) = unat (drop_bit 32 ?v)"
    by (simp only: unat_drop_bit_eq)
  have t: "take_bit 32 (unat ?v) = unat (take_bit 32 ?v)"
    by (simp only: unsigned_take_bit_eq)
  show ?thesis
    using n unfolding d t by (simp only: now_monotonic_time_halves)
qed

lemma unat_now_monotonic_time_small:
  assumes "unat (tv_sec a) < 2 ^ 32" and "unat (tv_nsec a) < 2 ^ 32"
  shows "unat (now_monotonic_time a) = unat (tv_sec a) * 2 ^ 32 + unat (tv_nsec a)"
  using assms
  by (simp add: unat_now_monotonic_time unsigned_take_bit_eq take_bit_nat_eq_self)

lemma now_monotonic_time_mono:
  assumes s1: "unat (tv_sec a) < 2 ^ 32" and s2: "unat (tv_sec b) < 2 ^ 32"
    and n1: "unat (tv_nsec a) < 2 ^ 32" and n2: "unat (tv_nsec b) < 2 ^ 32"
    and le: "tv_sec a < tv_sec b \<or> (tv_sec a = tv_sec b \<and> tv_nsec a \<le> tv_nsec b)"
  shows "now_monotonic_time a \<le> now_monotonic_time b"
proof -
  note ua = unat_now_monotonic_time_small [OF s1 n1]
  note ub = unat_now_monotonic_time_small [OF s2 n2]
  from le have "unat (tv_sec a) < unat (tv_sec b)
      \<or> (unat (tv_sec a) = unat (tv_sec b) \<and> unat (tv_nsec a) \<le> unat (tv_nsec b))"
    by (auto simp add: word_less_nat_alt word_le_nat_alt)
  then have "unat (now_monotonic_time a) \<le> unat (now_monotonic_time b)"
  proof
    assume "unat (tv_sec a) < unat (tv_sec b)"
    then have "unat (tv_sec a) + 1 \<le> unat (tv_sec b)"
      by simp
    then have "(unat (tv_sec a) + 1) * 2 ^ 32 \<le> unat (tv_sec b) * 2 ^ 32"
      by (rule mult_le_mono1)
    then show ?thesis
      using n1 unfolding ua ub by simp
  next
    assume "unat (tv_sec a) = unat (tv_sec b) \<and> unat (tv_nsec a) \<le> unat (tv_nsec b)"
    then show ?thesis
      unfolding ua ub by simp
  qed
  then show ?thesis
    by (simp add: word_le_nat_alt)
qed

text \<open>Below \<open>2 ^ 31\<close> seconds the top bit of the packed value is clear.\<close>

lemma now_monotonic_time_sint:
  assumes "unat (tv_sec a) < 2 ^ 31" and "unat (tv_nsec a) < 2 ^ 32"
  shows "sint (now_monotonic_time a) = uint (now_monotonic_time a)"
proof -
  have ua: "unat (now_monotonic_time a) = unat (tv_sec a) * 2 ^ 32 + unat (tv_nsec a)"
    using assms by (intro unat_now_monotonic_time_small) simp_all
  have "unat (tv_sec a) + 1 \<le> 2 ^ 31"
    using assms(1) by simp
  then have "(unat (tv_sec a) + 1) * 2 ^ 32 \<le> 2 ^ 31 * (2 ^ 32 :: nat)"
    by (rule mult_le_mono1)
  then have "unat (now_monotonic_time a) < 2 ^ 63"
    using assms(2) unfolding ua by simp
  then have "uint (now_monotonic_time a) < 2 ^ 63"
    unfolding uint_nat by (simp only: of_nat_less_numeral_power_cancel_iff)
  moreover have "- (2 ^ 63) \<le> uint (now_monotonic_time a)"
    by (rule order_trans [of _ 0]) simp_all
  ultimately have "signed_take_bit 63 (uint (now_monotonic_time a)) = uint (now_monotonic_time a)"
    by (intro signed_take_bit_int_eq_self)
  moreover have "sint (now_monotonic_time a) = signed_take_bit 63 (uint (now_monotonic_time a))"
    by (simp add: sint_uint)
  ultimately show ?thesis
    by (simp only:)
qed

lemma now_monotonic_time_mono_signed:
  assumes s1: "unat (tv_sec a) < 2 ^ 31" and s2: "unat (tv_sec b) < 2 ^ 31"
    and n1: "unat (tv_nsec a) < 2 ^ 32" and n2: "unat (tv_nsec b) < 2 ^ 32"
    and le: "tv_sec a < tv_sec b \<or> (tv_sec a = tv_sec b \<and> tv_nsec a \<le> tv_nsec b)"
  shows "now_monotonic_time a \<le>s now_monotonic_time b"
proof -
  have "now_monotonic_time a \<le> now_monotonic_time b"
    using s1 s2 n1 n2 le by (intro now_monotonic_time_mono) simp_all
  then show ?thesis
    using now_monotonic_time_sint [OF s1 n1] now_monotonic_time_sint [OF s2 n2]
    by (simp add: word_sle_eq word_le_def)
qed

text \<open>
  C4 as stated fails. The seconds are cut to 32 bits before they are packed, so a later
  reading can pack to a smaller value: the reading of \<open>2 ^ 31 - 1\<close> seconds packs to
  \<^verbatim>\<open>0x7fffffff00000000\<close>, the later reading of \<open>2 ^ 32\<close> seconds packs to 0, which is
  smaller both as an unsigned and as a signed 64-bit integer.
\<close>

theorem now_monotonic_counterexample:
  "tv_sec \<lparr>tv_sec = 2147483647, tv_nsec = 0\<rparr> <s tv_sec \<lparr>tv_sec = 4294967296, tv_nsec = 0\<rparr>
   \<and> ctx_result (example_now_monotonic new_context (0, \<lparr>tv_sec = 2147483647, tv_nsec = 0\<rparr>))
       = Result_int64 0x7fffffff00000000
   \<and> ctx_result (example_now_monotonic new_context (0, \<lparr>tv_sec = 4294967296, tv_nsec = 0\<rparr>))
       = Result_int64 0
   \<and> \<not> ((0x7fffffff00000000 :: 64 word) \<le> 0)
   \<and> \<not> ((0x7fffffff00000000 :: 64 word) \<le>s 0)"
  by (simp add: example_now_monotonic_def now_monotonic_time_def sqlite3_result_int64_def
      new_context_def word_sless_alt word_sle_eq)

text \<open>
  C4, amended. Whenever \<^verbatim>\<open>clock_gettime\<close> does not return -1, the function returns the
  64-bit value whose high half is the low 32 bits of the seconds and whose low half is
  the low 32 bits of the nanoseconds. For two readings \<open>a\<close> no later than \<open>b\<close>, with
  nanoseconds below \<open>10 ^ 9\<close> and seconds in \<open>[0, 2 ^ 32)\<close>, the value returned for \<open>b\<close>
  is not below the one for \<open>a\<close> as unsigned 64-bit integers; with the seconds of \<open>b\<close> in
  \<open>[0, 2 ^ 31)\<close> the same holds of the signed 64-bit integers that the engine receives.
  (The bounds are stated with the unsigned order of the 64-bit fields; a field below
  \<open>2 ^ 63\<close> has the same signed and unsigned value.)
\<close>

theorem now_monotonic_non_decreasing:
  assumes "ra \<noteq> -1" and "rb \<noteq> -1"
    and "tv_sec b < 2 ^ 32"
    and "tv_nsec a < 1000000000" and "tv_nsec b < 1000000000"
    and "tv_sec a < tv_sec b \<or> (tv_sec a = tv_sec b \<and> tv_nsec a \<le> tv_nsec b)"
  shows "ctx_result (example_now_monotonic ctx (ra, a)) = Result_int64 (now_monotonic_time a)
       \<and> ctx_result (example_now_monotonic ctx (rb, b)) = Result_int64 (now_monotonic_time b)
       \<and> drop_bit 32 (now_monotonic_time a) = take_bit 32 (tv_sec a)
       \<and> take_bit 32 (now_monotonic_time a) = take_bit 32 (tv_nsec a)
       \<and> now_monotonic_time a \<le> now_monotonic_time b
       \<and> (tv_sec b < 2 ^ 31 \<longrightarrow> now_monotonic_time a \<le>s now_monotonic_time b)"
proof -
  have sb: "unat (tv_sec b) < 2 ^ 32"
    using assms(3) by (simp add: word_less_nat_alt)
  have "tv_sec a \<le> tv_sec b"
    using assms(6) by auto
  then have sa: "unat (tv_sec a) < 2 ^ 32"
    using sb by (simp add: word_le_nat_alt)
  have na: "unat (tv_nsec a) < 2 ^ 32" and nb: "unat (tv_nsec b) < 2 ^ 32"
    using assms(4,5) by (simp_all add: word_less_nat_alt)
  have r: "ctx_result (example_now_monotonic ctx (ra, a)) = Result_int64 (now_monotonic_time a)"
    "ctx_result (example_now_monotonic ctx (rb, b)) = Result_int64 (now_monotonic_time b)"
    using assms(1,2) by (auto simp add: example_now_monotonic_def sqlite3_result_int64_def)
  have u: "now_monotonic_time a \<le> now_monotonic_time b"
    using sa sb na nb assms(6) by (rule now_monotonic_time_mono)
  have s: "now_monotonic_time a \<le>s now_monotonic_time b" if "tv_sec b < 2 ^ 31"
  proof -
    have sb': "unat (tv_sec b) < 2 ^ 31"
      using that by (simp add: word_less_nat_alt)
    have sa': "unat (tv_sec a) < 2 ^ 31"
      using sb' \<open>tv_sec a \<le> tv_sec b\<close> by (simp add: word_le_nat_alt)
    show ?thesis
      using sa' sb' na nb assms(6) by (rule now_monotonic_time_mono_signed)
  qed
  show ?thesis
    using r u s now_monotonic_time_halves [of a] by simp
qed

theorem now_monotonic_non_decreasing_witness:
  "ctx_result (example_now_monotonic new_context (0, \<lparr>tv_sec = 7, tv_nsec = 999999999\<rparr>))
      = Result_int64 (now_monotonic_time \<lparr>tv_sec = 7, tv_nsec = 999999999\<rparr>)
   \<and> now_monotonic_time \<lparr>tv_sec = 7, tv_nsec = 999999999\<rparr>
      \<le> now_monotonic_time \<lparr>tv_sec = 8, tv_nsec = 0\<rparr>
   \<and> now_monotonic_time \<lparr>tv_sec = 7, tv_nsec = 999999999\<rparr>
      \<le>s now_monotonic_time \<lparr>tv_sec = 8, tv_nsec = 0\<rparr>"
  using now_monotonic_non_decreasing [of 0 0 "\<lparr>tv_sec = 8, tv_nsec = 0\<rparr>"
      "\<lparr>tv_sec = 7, tv_nsec = 999999999\<rparr>" new_context]
  by simp

section \<open>Properties of serialization\<close>

text \<open>
  C9 (serialization failure detection). \<^verbatim>\<open>example_serialize\<close> returns -1 exactly when
  the engine left the sentinel -1 in \<^verbatim>\<open>db_len\<close>; for every other length it returns 0
  after printing that length. In particular the length 0 of an empty database, and any
  non-negative length, is a success.
\<close>

theorem serialize_failure_detection:
  "(fst (example_serialize E db) = -1 \<longleftrightarrow> serialize_len E = -1)
   \<and> (fst (example_serialize E db) = 0 \<longleftrightarrow> serialize_len E \<noteq> -1)
   \<and> (serialize_len E \<noteq> -1
        \<longrightarrow> example_serialize E db = (0, Some (sint (serialize_len E))))
   \<and> (0 \<le>s serialize_len E
        \<longrightarrow> example_serialize E db = (0, Some (sint (serialize_len E))))
   \<and> (serialize_len E = 0 \<longrightarrow> example_serialize E db = (0, Some 0))"
proof (cases "serialize_len E = -1")
  case True
  then show ?thesis
    by (simp add: example_serialize_def sqlite3_serialize_def word_sle_eq)
next
  case False
  then have "-1 \<noteq> serialize_len E"
    by auto
  with False show ?thesis
    by (simp add: example_serialize_def sqlite3_serialize_def Let_def)
qed

theorem serialize_failure_detection_witness:
  "example_serialize healthy_engine initialized = (0, Some 4096)
   \<and> example_serialize (healthy_engine\<lparr>serialize_len := 0\<rparr>) initialized = (0, Some 0)
   \<and> fst (example_serialize (healthy_engine\<lparr>serialize_len := -1\<rparr>) initialized) = -1"
  using serialize_failure_detection [of healthy_engine initialized]
    serialize_failure_detection [of "healthy_engine\<lparr>serialize_len := 0\<rparr>" initialized]
    serialize_failure_detection [of "healthy_engine\<lparr>serialize_len := -1\<rparr>" initialized]
  by (simp add: healthy_engine_def word_sle_eq)

section \<open>Properties of initialization\<close>

lemmas rc_defs = SQLITE_OK_def SQLITE_ERROR_def SQLITE_ROW_def SQLITE_DONE_def
  SQLITE_CONSTRAINT_def SQLITE_CANTOPEN_def SQLITE_TOOBIG_def SQLITE_RANGE_def

lemma table_names:
  "tbl_name devices_table = ''devices''" "tbl_name outputs_table = ''outputs''"
  "tbl_name groups_table = ''groups''" "tbl_name measured_table = ''measured''"
  "tbl_name setpoint_table = ''setpoint''"
  "tbl_schema devices_table = ''main''" "tbl_schema outputs_table = ''main''"
  "tbl_schema groups_table = ''main''" "tbl_schema measured_table = ''state''"
  "tbl_schema setpoint_table = ''state''"
  by (simp_all add: devices_table_def outputs_table_def groups_table_def measured_table_def
      setpoint_table_def)

lemma exec_schema_full:
  assumes "\<not> in_transaction db"
    and "''devices'' \<notin> tbl_name ` set (db_tables (main_db db))"
    and "''outputs'' \<notin> tbl_name ` set (db_tables (main_db db))"
    and "''groups'' \<notin> tbl_name ` set (db_tables (main_db db))"
  shows "exec_cmds example_schema_full db =
     (SQLITE_OK, db\<lparr>main_db := (main_db db)
                       \<lparr>db_tables := db_tables (main_db db)
                                       @ [devices_table, outputs_table, groups_table],
                        db_user_version := 1\<rparr>\<rparr>)"
  using assms
  by (simp add: example_schema_full_def table_names rc_defs)

lemma example_init_any_files: "example_init healthy_engine fs = (0, Some initialized)"
  by (simp add: example_init_def healthy_engine_def sqlite3_initialize_def
      sqlite3_open_v2_def example_init_open_flags_def SQLITE_OPEN_MEMORY_def
      SQLITE_OPEN_CREATE_def SQLITE_OPEN_READWRITE_def new_connection_def empty_database_def
      sqlite3_exec_def example_init_schema_migration_def sqlite3_prepare_v3_def
      sqlite3_step_def sqlite3_column_int_def sqlite3_finalize_def
      example_init_schema_migration_full_def exec_schema_full
      example_init_schema_memory_def example_memory_schema_def table_names set_attached_def
      example_init_custom_agg_function_def sqlite3_create_function_v2_def
      initialized_def rc_defs Let_def)


lemma migration_reads_marker:
  assumes "fault E API_prepare = SQLITE_OK" "fault E API_step = SQLITE_OK"
    "fault E API_finalize = SQLITE_OK"
  shows "example_init_schema_migration E db =
     (let db1 = db\<lparr>step_calls := Suc (step_calls db)\<rparr>
      in if db_user_version (main_db db) = 0 then
           (case example_init_schema_migration_full E db1 of
              (ret, db2) \<Rightarrow> if -1 = ret then (-1, db2) else (0, db2))
         else if db_user_version (main_db db) = 1 then (0, db1)
         else (-1, db1))"
  using assms
  by (simp add: example_init_schema_migration_def sqlite3_prepare_v3_def sqlite3_step_def
      sqlite3_column_int_def sqlite3_finalize_def rc_defs Let_def)



text \<open>
  C1 (schema-version dispatch). Provided the engine prepares, steps and finalizes the
  marker query without a failure of its own, \<^verbatim>\<open>example_init_schema_migration\<close> acts on
  the marker \<open>v\<close> it read as follows. For \<open>v = 0\<close>, when the engine runs the schema batch
  (no failure of its own, no transaction open, none of the three table names taken), it
  returns 0, the three tables \<^verbatim>\<open>devices\<close>, \<^verbatim>\<open>outputs\<close>, \<^verbatim>\<open>groups\<close> with their constraints
  have been added and the marker is 1; the batch opens with its only \<^verbatim>\<open>begin\<close> and
  closes with its only \<^verbatim>\<open>commit\<close>. For \<open>v = 1\<close> it returns 0, for every other \<open>v\<close> it
  returns -1, and in both cases the connection is as before but for the count of steps
  served.
\<close>

theorem schema_version_dispatch:
  assumes "fault E API_prepare = SQLITE_OK" and "fault E API_step = SQLITE_OK"
    and "fault E API_finalize = SQLITE_OK"
  shows "(db_user_version (main_db db) = 0 \<and> fault E API_exec = SQLITE_OK
            \<and> \<not> in_transaction db
            \<and> ''devices'' \<notin> tbl_name ` set (db_tables (main_db db))
            \<and> ''outputs'' \<notin> tbl_name ` set (db_tables (main_db db))
            \<and> ''groups'' \<notin> tbl_name ` set (db_tables (main_db db))
          \<longrightarrow> example_init_schema_migration E db =
                (0, db\<lparr>step_calls := Suc (step_calls db),
                       main_db := (main_db db)
                         \<lparr>db_tables := db_tables (main_db db)
                                         @ [devices_table, outputs_table, groups_table],
                          db_user_version := 1\<rparr>\<rparr>))
       \<and> (db_user_version (main_db db) = 1
          \<longrightarrow> example_init_schema_migration E db
                = (0, db\<lparr>step_calls := Suc (step_calls db)\<rparr>))
       \<and> (db_user_version (main_db db) \<noteq> 0 \<and> db_user_version (main_db db) \<noteq> 1
          \<longrightarrow> example_init_schema_migration E db
                = (-1, db\<lparr>step_calls := Suc (step_calls db)\<rparr>))
       \<and> hd example_schema_full = Begin \<and> last example_schema_full = Commit
       \<and> count_list example_schema_full Begin = 1
       \<and> count_list example_schema_full Commit = 1"
proof -
  note m = migration_reads_marker [OF assms, of db]
  have full: "example_init_schema_migration E db =
                (0, db\<lparr>step_calls := Suc (step_calls db),
                       main_db := (main_db db)
                         \<lparr>db_tables := db_tables (main_db db)
                                         @ [devices_table, outputs_table, groups_table],
                          db_user_version := 1\<rparr>\<rparr>)"
    if "db_user_version (main_db db) = 0" "fault E API_exec = SQLITE_OK"
      "\<not> in_transaction db"
      "''devices'' \<notin> tbl_name ` set (db_tables (main_db db))"
      "''outputs'' \<notin> tbl_name ` set (db_tables (main_db db))"
      "''groups'' \<notin> tbl_name ` set (db_tables (main_db db))"
  proof -
    let ?db1 = "db\<lparr>step_calls := Suc (step_calls db)\<rparr>"
    have "exec_cmds example_schema_full ?db1 =
     (SQLITE_OK, ?db1\<lparr>main_db := (main_db ?db1)
                       \<lparr>db_tables := db_tables (main_db ?db1)
                                       @ [devices_table, outputs_table, groups_table],
                        db_user_version := 1\<rparr>\<rparr>)"
      using that by (intro exec_schema_full) simp_all
    then show ?thesis
      using that(1,2)
      by (simp add: m example_init_schema_migration_full_def sqlite3_exec_def rc_defs)
  qed
  have one: "example_init_schema_migration E db = (0, db\<lparr>step_calls := Suc (step_calls db)\<rparr>)"
    if "db_user_version (main_db db) = 1"
    using that by (simp add: m)
  have other: "example_init_schema_migration E db = (-1, db\<lparr>step_calls := Suc (step_calls db)\<rparr>)"
    if "db_user_version (main_db db) \<noteq> 0" "db_user_version (main_db db) \<noteq> 1"
    using that by (simp add: m)
  have script: "hd example_schema_full = Begin" "last example_schema_full = Commit"
    "count_list example_schema_full Begin = 1" "count_list example_schema_full Commit = 1"
    by (simp_all add: example_schema_full_def)
  show ?thesis
    using full one other script by blast
qed


lemma example_init_healthy: "example_init healthy_engine no_files = (0, Some initialized)"
  by (rule example_init_any_files)

theorem schema_version_dispatch_witness:
  "example_init_schema_migration healthy_engine (new_connection In_memory empty_database)
     = (0, (new_connection In_memory
              \<lparr>db_user_version = 1,
               db_tables = [devices_table, outputs_table, groups_table],
               db_devices = []\<rparr>)\<lparr>step_calls := 1\<rparr>)
   \<and> example_init_schema_migration healthy_engine
       (new_connection In_memory (empty_database\<lparr>db_user_version := 1\<rparr>))
     = (0, (new_connection In_memory (empty_database\<lparr>db_user_version := 1\<rparr>))
             \<lparr>step_calls := 1\<rparr>)
   \<and> example_init_schema_migration healthy_engine
       (new_connection In_memory (empty_database\<lparr>db_user_version := 2\<rparr>))
     = (-1, (new_connection In_memory (empty_database\<lparr>db_user_version := 2\<rparr>))
             \<lparr>step_calls := 1\<rparr>)"
proof -
  have h: "fault healthy_engine API_prepare = SQLITE_OK"
    "fault healthy_engine API_step = SQLITE_OK"
    "fault healthy_engine API_finalize = SQLITE_OK"
    "fault healthy_engine API_exec = SQLITE_OK"
    by (simp_all add: healthy_engine_def)
  show ?thesis
    using schema_version_dispatch [OF h(1,2,3), of "new_connection In_memory empty_database"]
      schema_version_dispatch [OF h(1,2,3),
        of "new_connection In_memory (empty_database\<lparr>db_user_version := 1\<rparr>)"]
      schema_version_dispatch [OF h(1,2,3),
        of "new_connection In_memory (empty_database\<lparr>db_user_version := 2\<rparr>)"]
    by (simp add: h(4) new_connection_def empty_database_def)
qed

section \<open>Properties of the aggregate query\<close>

declare aggregate_query_loop.simps [simp del]

lemma step_counters:
  assumes "sqlite3_step E db stmt = (rc, stmt', db')"
  shows "live_stmts db' = live_stmts db \<and> step_calls db' = Suc (step_calls db)"
  using assms
  by (auto simp add: sqlite3_step_def Let_def split: sql.splits prod.splits if_splits option.splits)

lemma step_select:
  assumes "stmt_sql stmt = Select_example_agg_f"
  shows "sqlite3_step E db stmt =
           (fst (select_step E (stmt_steps stmt)),
            stmt\<lparr>stmt_steps := Suc (stmt_steps stmt),
                 stmt_blob0 := snd (select_step E (stmt_steps stmt))\<rparr>,
            db\<lparr>step_calls := Suc (step_calls db)\<rparr>)"
  using assms by (simp add: sqlite3_step_def Let_def split: prod.splits)

lemma loop_counters:
  "aggregate_query_loop E i ret stmt db logged = Some (r, db', l)
   \<Longrightarrow> live_stmts db' = live_stmts db
       \<and> step_calls db' \<le> step_calls db + (EXAMPLE_MAX_QUERY_LOOP_STEPS - i)"
proof (induction E i ret stmt db logged rule: aggregate_query_loop.induct)
  case (1 E i ret stmt db logged)
  show ?case
  proof (cases "i < EXAMPLE_MAX_QUERY_LOOP_STEPS")
    case False
    with "1.prems" show ?thesis
      by (subst (asm) aggregate_query_loop.simps)
        (auto simp add: aggregate_query_end_def split: if_splits)
  next
    case True
    obtain rc stmt1 db1 where st: "sqlite3_step E db stmt = (rc, stmt1, db1)"
      by (cases "sqlite3_step E db stmt") auto
    note c = step_counters [OF st]
    show ?thesis
    proof (cases "rc = SQLITE_ROW")
      case False
      with "1.prems" True st c show ?thesis
        by (subst (asm) aggregate_query_loop.simps)
          (auto simp add: aggregate_query_end_def split: if_splits)
    next
      case row: True
      then have nd: "SQLITE_DONE \<noteq> rc"
        by (simp add: SQLITE_ROW_def SQLITE_DONE_def)
      show ?thesis
      proof (cases "res_aggregate (sqlite3_column_blob stmt1 0)")
        case None
        with "1.prems" True st row nd show ?thesis
          by (subst (asm) aggregate_query_loop.simps) simp
      next
        case (Some v)
        with "1.prems" True st row nd
        have "aggregate_query_loop E (Suc i) rc stmt1 db1 (logged @ [sint v]) = Some (r, db', l)"
          by (subst (asm) aggregate_query_loop.simps) simp
        with "1.IH" [OF True st [symmetric] refl nd _ Some] row
        have "live_stmts db' = live_stmts db1
              \<and> step_calls db' \<le> step_calls db1 + (EXAMPLE_MAX_QUERY_LOOP_STEPS - Suc i)"
          by simp
        with c True show ?thesis
          by (elim conjE, intro conjI) arith+
      qed
    qed
  qed
qed


lemma loop_unbounded:
  assumes "stmt_sql stmt = Select_example_agg_f" and "stmt_steps stmt = i"
    and "ret \<noteq> SQLITE_DONE" and "i \<le> EXAMPLE_MAX_QUERY_LOOP_STEPS"
    and "\<forall>j. i \<le> j \<and> j < EXAMPLE_MAX_QUERY_LOOP_STEPS
           \<longrightarrow> (\<exists>b. select_step E j = (SQLITE_ROW, b) \<and> 8 \<le> length b)"
  shows "\<exists>db' l. aggregate_query_loop E i ret stmt db logged = Some (-1, db', l)"
  using assms
proof (induction "EXAMPLE_MAX_QUERY_LOOP_STEPS - i" arbitrary: i ret stmt db logged)
  case 0
  then have "\<not> i < EXAMPLE_MAX_QUERY_LOOP_STEPS"
    by simp
  with "0.prems"(3) show ?case
    by (subst aggregate_query_loop.simps) (simp add: aggregate_query_end_def)
next
  case (Suc n)
  then have lt: "i < EXAMPLE_MAX_QUERY_LOOP_STEPS"
    by simp
  with Suc.prems(5) obtain b where b: "select_step E i = (SQLITE_ROW, b)" "8 \<le> length b"
    by auto
  let ?stmt = "stmt\<lparr>stmt_steps := Suc i, stmt_blob0 := b\<rparr>"
  let ?db = "db\<lparr>step_calls := Suc (step_calls db)\<rparr>"
  have st: "sqlite3_step E db stmt = (SQLITE_ROW, ?stmt, ?db)"
    using Suc.prems(1,2) b by (simp add: step_select)
  obtain v where v: "res_aggregate (sqlite3_column_blob ?stmt 0) = Some v"
    using b(2) by (simp add: res_aggregate_def sqlite3_column_blob_def)
  have "\<exists>db' l. aggregate_query_loop E (Suc i) SQLITE_ROW ?stmt ?db (logged @ [sint v])
          = Some (-1, db', l)"
    using Suc.hyps(2) Suc.prems(1,5) lt
    by (intro Suc.hyps(1)) (simp_all add: SQLITE_ROW_def SQLITE_DONE_def)
  then show ?case
    using lt st v
    by (subst aggregate_query_loop.simps) (simp add: SQLITE_ROW_def SQLITE_DONE_def)
qed

lemma loop_success:
  assumes "aggregate_query_loop E i ret stmt db logged = Some (0, db', l)"
    and "stmt_sql stmt = Select_example_agg_f" and "stmt_steps stmt = i"
    and "ret \<noteq> SQLITE_DONE"
  shows "\<exists>j. i \<le> j \<and> j < EXAMPLE_MAX_QUERY_LOOP_STEPS \<and> fst (select_step E j) = SQLITE_DONE"
  using assms
proof (induction "EXAMPLE_MAX_QUERY_LOOP_STEPS - i" arbitrary: i ret stmt db logged)
  case 0
  then have "\<not> i < EXAMPLE_MAX_QUERY_LOOP_STEPS"
    by simp
  with "0.prems"(1,4) show ?case
    by (subst (asm) aggregate_query_loop.simps) (simp add: aggregate_query_end_def)
next
  case (Suc n)
  then have lt: "i < EXAMPLE_MAX_QUERY_LOOP_STEPS"
    by simp
  obtain rc b where b: "select_step E i = (rc, b)"
    by (cases "select_step E i") auto
  let ?stmt = "stmt\<lparr>stmt_steps := Suc i, stmt_blob0 := b\<rparr>"
  let ?db = "db\<lparr>step_calls := Suc (step_calls db)\<rparr>"
  have st: "sqlite3_step E db stmt = (rc, ?stmt, ?db)"
    using Suc.prems(2,3) b by (simp add: step_select)
  show ?case
  proof (cases "rc = SQLITE_DONE")
    case True
    with lt b show ?thesis
      by (intro exI [of _ i]) simp
  next
    case False
    then have nd: "SQLITE_DONE \<noteq> rc"
      by auto
    have unf: "aggregate_query_loop E i ret stmt db logged =
        (if SQLITE_ROW \<noteq> rc then Some (-1, ?db, logged)
         else case res_aggregate (sqlite3_column_blob ?stmt 0) of
                None \<Rightarrow> None
              | Some v \<Rightarrow> aggregate_query_loop E (Suc i) rc ?stmt ?db (logged @ [sint v]))"
      using lt st nd by (subst aggregate_query_loop.simps) simp
    from Suc.prems(1) have "rc = SQLITE_ROW \<and>
        (\<exists>v :: 32 word.
           aggregate_query_loop E (Suc i) rc ?stmt ?db (logged @ [sint v]) = Some (0, db', l))"
      unfolding unf by (auto split: if_splits option.splits)
    then obtain v :: "32 word" where "rc = SQLITE_ROW"
      and rec: "aggregate_query_loop E (Suc i) rc ?stmt ?db (logged @ [sint v]) = Some (0, db', l)"
      by blast
    then have "\<exists>j. Suc i \<le> j \<and> j < EXAMPLE_MAX_QUERY_LOOP_STEPS
                 \<and> fst (select_step E j) = SQLITE_DONE"
      using Suc.hyps(2) Suc.prems(2) False
      by (intro Suc.hyps(1) [OF _ rec]) simp_all
    then show ?thesis
      by (meson Suc_leD)
  qed
qed

lemma loop_rows:
  assumes "stmt_sql stmt = Select_example_agg_f" and "stmt_steps stmt = i"
    and "i + length blobs < EXAMPLE_MAX_QUERY_LOOP_STEPS"
    and "\<forall>j < length blobs. select_step E (i + j) = (SQLITE_ROW, blobs ! j)
                              \<and> 8 \<le> length (blobs ! j)"
    and "fst (select_step E (i + length blobs)) = SQLITE_DONE"
  shows "aggregate_query_loop E i ret stmt db logged =
           Some (0, db\<lparr>step_calls := step_calls db + length blobs + 1\<rparr>,
                 logged @ map (\<lambda>b. sint (bytes_int (take 4 (drop 4 b)))) blobs)"
  using assms
proof (induction blobs arbitrary: i ret stmt db logged)
  case Nil
  then show ?case
    by (subst aggregate_query_loop.simps)
      (simp add: step_select aggregate_query_end_def)
next
  case (Cons b blobs)
  have lt: "i < EXAMPLE_MAX_QUERY_LOOP_STEPS"
    using Cons.prems(3) by simp
  have b: "select_step E i = (SQLITE_ROW, b)" "8 \<le> length b"
    using Cons.prems(4) [rule_format, of 0] by simp_all
  let ?stmt = "stmt\<lparr>stmt_steps := Suc i, stmt_blob0 := b\<rparr>"
  let ?db = "db\<lparr>step_calls := Suc (step_calls db)\<rparr>"
  let ?v = "bytes_int (take 4 (drop 4 b))"
  have st: "sqlite3_step E db stmt = (SQLITE_ROW, ?stmt, ?db)"
    using Cons.prems(1,2) b by (simp add: step_select)
  have v: "res_aggregate (sqlite3_column_blob ?stmt 0) = Some ?v"
    using b(2) by (simp add: res_aggregate_def sqlite3_column_blob_def)
  have rest: "\<forall>j < length blobs. select_step E (Suc i + j) = (SQLITE_ROW, blobs ! j)
                              \<and> 8 \<le> length (blobs ! j)"
    using Cons.prems(4) by (auto dest: spec [of _ "Suc j" for j])
  have "aggregate_query_loop E (Suc i) SQLITE_ROW ?stmt ?db (logged @ [sint ?v]) =
           Some (0, ?db\<lparr>step_calls := step_calls ?db + length blobs + 1\<rparr>,
                 (logged @ [sint ?v]) @ map (\<lambda>b. sint (bytes_int (take 4 (drop 4 b)))) blobs)"
    using Cons.prems(1,3,5) rest by (intro Cons.IH) simp_all
  then show ?case
    using lt st v
    by (subst aggregate_query_loop.simps) (simp add: SQLITE_ROW_def SQLITE_DONE_def)
qed

lemma compiles_initialized:
  "compiles initialized Select_example_agg_f" "compiles initialized Insert_device"
  by (simp_all add: initialized_def)

lemma query_prepared:
  assumes "fault E API_prepare = SQLITE_OK" and "compiles db Select_example_agg_f"
  shows "example_custom_aggregate_query E db =
           aggregate_query_loop E 0 SQLITE_OK
             \<lparr>stmt_sql = Select_example_agg_f, stmt_text1 = None, stmt_steps = 0,
              stmt_int0 = 0, stmt_blob0 = []\<rparr>
             (db\<lparr>live_stmts := Suc (live_stmts db)\<rparr>) []"
  using assms by (simp add: example_custom_aggregate_query_def sqlite3_prepare_v3_def)

lemma query_not_prepared:
  assumes "fault E API_prepare \<noteq> SQLITE_OK \<or> \<not> compiles db Select_example_agg_f"
  shows "example_custom_aggregate_query E db = Some (-1, db, [])"
  using assms
  by (auto simp add: example_custom_aggregate_query_def sqlite3_prepare_v3_def rc_defs)

lemma query_rows:
  assumes "fault E API_prepare = SQLITE_OK" and "compiles db Select_example_agg_f"
    and "length blobs < EXAMPLE_MAX_QUERY_LOOP_STEPS"
    and "\<forall>j < length blobs. select_step E j = (SQLITE_ROW, blobs ! j) \<and> 8 \<le> length (blobs ! j)"
    and "fst (select_step E (length blobs)) = SQLITE_DONE"
  shows "example_custom_aggregate_query E db =
           Some (0, db\<lparr>live_stmts := Suc (live_stmts db),
                       step_calls := step_calls db + length blobs + 1\<rparr>,
                 map (\<lambda>b. sint (bytes_int (take 4 (drop 4 b)))) blobs)"
proof -
  let ?stmt = "\<lparr>stmt_sql = Select_example_agg_f, stmt_text1 = None, stmt_steps = 0,
              stmt_int0 = 0, stmt_blob0 = []\<rparr>"
  have "aggregate_query_loop E 0 SQLITE_OK ?stmt (db\<lparr>live_stmts := Suc (live_stmts db)\<rparr>) [] =
      Some (0, db\<lparr>live_stmts := Suc (live_stmts db)\<rparr>
                 \<lparr>step_calls := step_calls (db\<lparr>live_stmts := Suc (live_stmts db)\<rparr>) + length blobs + 1\<rparr>,
            [] @ map (\<lambda>b. sint (bytes_int (take 4 (drop 4 b)))) blobs)"
    using assms(3,4,5) by (intro loop_rows) simp_all
  then show ?thesis
    by (simp add: query_prepared [OF assms(1,2)])
qed

text \<open>
  C5 (bounded-iteration guard). The cap is 1048576. Whatever the engine does,
  \<^verbatim>\<open>example_custom_aggregate_query\<close> makes at most that many step calls. If each of the
  first 1048576 steps reports a row (of at least the 8 bytes that the read of the sum
  needs), the function returns -1. It returns 0 only if one of the first 1048576 steps
  reported \<^verbatim>\<open>SQLITE_DONE\<close>.
\<close>

theorem bounded_iteration:
  "EXAMPLE_MAX_QUERY_LOOP_STEPS = 1048576
   \<and> (example_custom_aggregate_query E db = Some (ret, db', l)
        \<longrightarrow> step_calls db' \<le> step_calls db + EXAMPLE_MAX_QUERY_LOOP_STEPS)
   \<and> ((\<forall>i < EXAMPLE_MAX_QUERY_LOOP_STEPS. \<exists>b. select_step E i = (SQLITE_ROW, b) \<and> 8 \<le> length b)
        \<longrightarrow> (\<exists>db' l. example_custom_aggregate_query E db = Some (-1, db', l)))
   \<and> (example_custom_aggregate_query E db = Some (0, db', l)
        \<longrightarrow> (\<exists>i < EXAMPLE_MAX_QUERY_LOOP_STEPS. fst (select_step E i) = SQLITE_DONE))"
proof (cases "fault E API_prepare = SQLITE_OK \<and> compiles db Select_example_agg_f")
  case False
  then have "example_custom_aggregate_query E db = Some (-1, db, [])"
    by (intro query_not_prepared) auto
  then show ?thesis
    by (auto simp add: EXAMPLE_MAX_QUERY_LOOP_STEPS_def)
next
  case True
  let ?stmt = "\<lparr>stmt_sql = Select_example_agg_f, stmt_text1 = None, stmt_steps = 0,
              stmt_int0 = 0, stmt_blob0 = []\<rparr>"
  let ?db = "db\<lparr>live_stmts := Suc (live_stmts db)\<rparr>"
  have q: "example_custom_aggregate_query E db = aggregate_query_loop E 0 SQLITE_OK ?stmt ?db []"
    using True by (simp add: query_prepared)
  have a: "step_calls db' \<le> step_calls db + EXAMPLE_MAX_QUERY_LOOP_STEPS"
    if "example_custom_aggregate_query E db = Some (ret, db', l)"
    using loop_counters [of E 0 SQLITE_OK ?stmt ?db "[]" ret db' l] that
    by (simp add: q)
  have b: "\<exists>db' l. example_custom_aggregate_query E db = Some (-1, db', l)"
    if "\<forall>i < EXAMPLE_MAX_QUERY_LOOP_STEPS. \<exists>b. select_step E i = (SQLITE_ROW, b) \<and> 8 \<le> length b"
    unfolding q using that
    by (intro loop_unbounded) (simp_all add: rc_defs)
  have c: "\<exists>i < EXAMPLE_MAX_QUERY_LOOP_STEPS. fst (select_step E i) = SQLITE_DONE"
    if "example_custom_aggregate_query E db = Some (0, db', l)"
    using loop_success [of E 0 SQLITE_OK ?stmt ?db "[]" db' l] that
    by (simp add: q rc_defs)
  show ?thesis
    using a b c by (simp add: EXAMPLE_MAX_QUERY_LOOP_STEPS_def)
qed

lemma query_healthy:
  "example_custom_aggregate_query healthy_engine initialized =
     Some (0, initialized\<lparr>live_stmts := 1, step_calls := 2\<rparr>, [])"
  using query_rows [of healthy_engine initialized "[]"]
  by (simp add: compiles_initialized healthy_engine_def EXAMPLE_MAX_QUERY_LOOP_STEPS_def)
    (simp add: initialized_def)

theorem bounded_iteration_witness:
  "(\<exists>db' l. example_custom_aggregate_query endless_engine initialized = Some (-1, db', l))
   \<and> example_custom_aggregate_query healthy_engine initialized
       = Some (0, initialized\<lparr>live_stmts := 1, step_calls := 2\<rparr>, [])
   \<and> step_calls (initialized\<lparr>live_stmts := 1, step_calls := 2\<rparr>)
       \<le> step_calls initialized + EXAMPLE_MAX_QUERY_LOOP_STEPS
   \<and> (\<exists>i < EXAMPLE_MAX_QUERY_LOOP_STEPS. fst (select_step healthy_engine i) = SQLITE_DONE)"
  using bounded_iteration [of endless_engine initialized]
    bounded_iteration [of healthy_engine initialized 0
      "initialized\<lparr>live_stmts := 1, step_calls := 2\<rparr>" "[]"]
  by (simp add: query_healthy endless_engine_def)

section \<open>Properties of the insert\<close>

lemma sint_small:
  assumes "unat (w :: 32 word) \<le> 1000000000"
  shows "sint w = uint w" and "uint w \<le> 1000000000"
proof -
  have "int (unat w) \<le> 1000000000"
    using assms by linarith
  then show u: "uint w \<le> 1000000000"
    by (simp only: uint_nat)
  have "- (2 ^ 31) \<le> uint w"
    by (rule order_trans [of _ 0]) simp_all
  moreover have "uint w < 2 ^ 31"
    using u by simp
  ultimately have "signed_take_bit 31 (uint w) = uint w"
    by (intro signed_take_bit_int_eq_self)
  moreover have "sint w = signed_take_bit 31 (uint w)"
    by (simp add: sint_uint)
  ultimately show "sint w = uint w"
    by (simp only:)
qed

lemma device_new_eval:
  assumes "fault E API_prepare = SQLITE_OK" and "fault E API_bind = SQLITE_OK"
    and "fault E API_step = SQLITE_OK" and "fault E API_finalize = SQLITE_OK"
    and "compiles db Insert_device"
    and "unat deviceid_len \<le> length deviceid" and "unat deviceid_len \<le> 1000000000"
  shows "example_device_new E db deviceid deviceid_len =
     (if sql_length (take (unat deviceid_len) deviceid) \<noteq> 12
         \<or> take (unat deviceid_len) deviceid \<in> set (db_devices (main_db db))
      then Some (-1, db\<lparr>live_stmts := Suc (live_stmts db),
                        step_calls := Suc (step_calls db)\<rparr>)
      else Some (0, db\<lparr>step_calls := Suc (step_calls db),
                       main_db := (main_db db)
                         \<lparr>db_devices := db_devices (main_db db)
                                          @ [take (unat deviceid_len) deviceid]\<rparr>\<rparr>))"
proof -
  let ?stmt = "\<lparr>stmt_sql = Insert_device, stmt_text1 = None, stmt_steps = 0,
                stmt_int0 = 0, stmt_blob0 = []\<rparr>"
  let ?v = "take (unat deviceid_len) deviceid"
  have p: "sqlite3_prepare_v3 E db Insert_device
             = (SQLITE_OK, Some ?stmt, db\<lparr>live_stmts := Suc (live_stmts db)\<rparr>)"
    using assms(1,5) by (simp add: sqlite3_prepare_v3_def)
  note s = sint_small [OF assms(7)]
  have n: "nat (sint deviceid_len) = unat deviceid_len"
    "\<not> sint deviceid_len < 0" "\<not> SQLITE_MAX_LENGTH < sint deviceid_len"
    using s(2) by (simp_all add: s(1) SQLITE_MAX_LENGTH_def)
  have b: "sqlite3_bind_text E ?stmt (Suc 0) deviceid (sint deviceid_len)
             = Some (SQLITE_OK, ?stmt\<lparr>stmt_text1 := Some ?v\<rparr>)"
    using assms(2,6) by (simp add: sqlite3_bind_text_def n)
  show ?thesis
    using assms(3,4)
    by (simp add: example_device_new_def p b sqlite3_step_def sqlite3_finalize_def rc_defs Let_def)
qed


text \<open>
  C10 (the identifier bound is the prefix of the given length). With an engine free of
  failures of its own and the table \<^verbatim>\<open>devices\<close> in place, for a length that stays inside
  the caller's buffer (and inside the engine's limit), the only value that
  \<^verbatim>\<open>example_device_new\<close> can insert is the first \<^verbatim>\<open>deviceid_len\<close> bytes of the buffer,
  wherever the buffer has its terminator: the call returns 0 and has appended that
  prefix to the rows of \<^verbatim>\<open>devices\<close> when the prefix passes the length check and is not
  yet a key, and returns -1 without inserting otherwise. The instance that follows the
  theorem is the call that \<^verbatim>\<open>main\<close> makes: of the 13 characters \<^verbatim>\<open>0123456789012\<close> the
  12 characters \<^verbatim>\<open>012345678901\<close> are inserted, and the call returns 0.
\<close>

theorem device_new_binds_prefix:
  assumes "fault E API_prepare = SQLITE_OK" and "fault E API_bind = SQLITE_OK"
    and "fault E API_step = SQLITE_OK" and "fault E API_finalize = SQLITE_OK"
    and "compiles db Insert_device"
    and "unat deviceid_len \<le> length deviceid" and "unat deviceid_len \<le> 1000000000"
  shows "example_device_new E db deviceid deviceid_len =
     (if sql_length (take (unat deviceid_len) deviceid) = 12
         \<and> take (unat deviceid_len) deviceid \<notin> set (db_devices (main_db db))
      then Some (0, db\<lparr>step_calls := Suc (step_calls db),
                       main_db := (main_db db)
                         \<lparr>db_devices := db_devices (main_db db)
                                          @ [take (unat deviceid_len) deviceid]\<rparr>\<rparr>)
      else Some (-1, db\<lparr>live_stmts := Suc (live_stmts db),
                        step_calls := Suc (step_calls db)\<rparr>))"
  using device_new_eval [OF assms] by simp

theorem device_new_binds_prefix_witness:
  "example_device_new healthy_engine initialized (''0123456789012'' @ [NUL]) 12 =
     Some (0, initialized\<lparr>step_calls := 2,
                 main_db := \<lparr>db_user_version = 1,
                              db_tables = [devices_table, outputs_table, groups_table],
                              db_devices = [''012345678901'']\<rparr>\<rparr>)
   \<and> main healthy_engine no_files =
       Some (0, Some (initialized\<lparr>live_stmts := 1, step_calls := 3,
                 main_db := \<lparr>db_user_version = 1,
                              db_tables = [devices_table, outputs_table, groups_table],
                              db_devices = [''012345678901'']\<rparr>\<rparr>))"
proof -
  have h: "fault healthy_engine API_prepare = SQLITE_OK" "fault healthy_engine API_bind = SQLITE_OK"
    "fault healthy_engine API_step = SQLITE_OK" "fault healthy_engine API_finalize = SQLITE_OK"
    by (simp_all add: healthy_engine_def)
  have l: "unat (12 :: 32 word) \<le> length (''0123456789012'' @ [NUL])"
    "unat (12 :: 32 word) \<le> 1000000000"
    by simp_all
  let ?db = "initialized\<lparr>step_calls := 2,
                 main_db := \<lparr>db_user_version = 1,
                              db_tables = [devices_table, outputs_table, groups_table],
                              db_devices = [''012345678901'']\<rparr>\<rparr>"
  have d: "example_device_new healthy_engine initialized (''0123456789012'' @ [NUL]) 12 =
     Some (0, ?db)"
    using device_new_binds_prefix [OF h compiles_initialized(2) l]
    by (simp add: NUL_def initialized_def)
  have q: "example_custom_aggregate_query healthy_engine ?db =
     Some (0, ?db\<lparr>live_stmts := 1, step_calls := 3\<rparr>, [])"
    using query_rows [of healthy_engine ?db "[]"]
    by (simp add: healthy_engine_def EXAMPLE_MAX_QUERY_LOOP_STEPS_def)
      (simp add: initialized_def)
  have m: "main healthy_engine no_files = Some (0, Some (?db\<lparr>live_stmts := 1, step_calls := 3\<rparr>))"
    by (simp add: main_def example_init_healthy d [simplified] q example_serialize_def
        sqlite3_serialize_def Let_def)
      (simp add: healthy_engine_def)
  show ?thesis
    using d m by simp
qed

section \<open>Release of statements\<close>

text \<open>
  C7 (statement release) does not hold of the code. \<^verbatim>\<open>example_custom_aggregate_query\<close>
  never calls \<^verbatim>\<open>sqlite3_finalize\<close>: whenever its prepare succeeded, it returns with one
  statement more alive than before, on every path. \<^verbatim>\<open>example_device_new\<close> returns
  without finalizing when the step is refused (here: by the length check), and
  \<^verbatim>\<open>example_init_schema_migration\<close> when the step of the pragma fails.
\<close>

theorem statements_left_unfinalized:
  "(fault E API_prepare = SQLITE_OK \<and> compiles db Select_example_agg_f
      \<and> example_custom_aggregate_query E db = Some (ret, db', l)
    \<longrightarrow> live_stmts db' = Suc (live_stmts db))
   \<and> (fault E API_prepare = SQLITE_OK \<and> fault E API_bind = SQLITE_OK
      \<and> fault E API_step = SQLITE_OK \<and> fault E API_finalize = SQLITE_OK
      \<and> compiles db Insert_device
      \<and> unat deviceid_len \<le> length deviceid \<and> unat deviceid_len \<le> 1000000000
      \<and> sql_length (take (unat deviceid_len) deviceid) \<noteq> 12
    \<longrightarrow> example_device_new E db deviceid deviceid_len
          = Some (-1, db\<lparr>live_stmts := Suc (live_stmts db),
                          step_calls := Suc (step_calls db)\<rparr>))
   \<and> (fault E API_prepare = SQLITE_OK \<and> fault E API_step \<noteq> SQLITE_OK
      \<and> fault E API_step \<noteq> SQLITE_ROW
    \<longrightarrow> example_init_schema_migration E db
          = (-1, db\<lparr>live_stmts := Suc (live_stmts db),
                     step_calls := Suc (step_calls db)\<rparr>))"
proof -
  let ?stmt = "\<lparr>stmt_sql = Select_example_agg_f, stmt_text1 = None, stmt_steps = 0,
              stmt_int0 = 0, stmt_blob0 = []\<rparr>"
  let ?db = "db\<lparr>live_stmts := Suc (live_stmts db)\<rparr>"
  have a: "live_stmts db' = Suc (live_stmts db)"
    if "fault E API_prepare = SQLITE_OK" "compiles db Select_example_agg_f"
      "example_custom_aggregate_query E db = Some (ret, db', l)"
    using loop_counters [of E 0 SQLITE_OK ?stmt ?db "[]" ret db' l] that
    by (simp add: query_prepared)
  have b: "example_device_new E db deviceid deviceid_len
          = Some (-1, db\<lparr>live_stmts := Suc (live_stmts db),
                          step_calls := Suc (step_calls db)\<rparr>)"
    if "fault E API_prepare = SQLITE_OK" "fault E API_bind = SQLITE_OK"
      "fault E API_step = SQLITE_OK" "fault E API_finalize = SQLITE_OK"
      "compiles db Insert_device"
      "unat deviceid_len \<le> length deviceid" "unat deviceid_len \<le> 1000000000"
      "sql_length (take (unat deviceid_len) deviceid) \<noteq> 12"
    using device_new_eval [OF that(1-7)] that(8) by simp
  have c: "example_init_schema_migration E db
          = (-1, db\<lparr>live_stmts := Suc (live_stmts db),
                     step_calls := Suc (step_calls db)\<rparr>)"
    if "fault E API_prepare = SQLITE_OK" "fault E API_step \<noteq> SQLITE_OK"
      "fault E API_step \<noteq> SQLITE_ROW"
    using that
    by (simp add: example_init_schema_migration_def sqlite3_prepare_v3_def sqlite3_step_def
        Let_def SQLITE_OK_def SQLITE_ROW_def)
  show ?thesis
    using a b c by blast
qed

theorem statements_left_unfinalized_witness:
  "example_custom_aggregate_query healthy_engine initialized
     = Some (0, initialized\<lparr>live_stmts := 1, step_calls := 2\<rparr>, [])
   \<and> live_stmts (initialized\<lparr>live_stmts := 1, step_calls := 2\<rparr>) = Suc (live_stmts initialized)
   \<and> example_device_new healthy_engine initialized (''01234567890'' @ [NUL]) 11
     = Some (-1, initialized\<lparr>live_stmts := 1, step_calls := 2\<rparr>)
   \<and> example_init_schema_migration busy_engine initialized
     = (-1, initialized\<lparr>live_stmts := 1, step_calls := 2\<rparr>)"
proof -
  have h: "fault healthy_engine API_prepare = SQLITE_OK" "fault healthy_engine API_bind = SQLITE_OK"
    "fault healthy_engine API_step = SQLITE_OK" "fault healthy_engine API_finalize = SQLITE_OK"
    by (simp_all add: healthy_engine_def)
  have b: "fault busy_engine API_prepare = SQLITE_OK" "fault busy_engine API_step \<noteq> SQLITE_OK"
    "fault busy_engine API_step \<noteq> SQLITE_ROW"
    by (simp_all add: busy_engine_def SQLITE_BUSY_def SQLITE_OK_def SQLITE_ROW_def)
  have s: "sql_length (take (unat (11 :: 32 word)) (''01234567890'' @ [NUL])) \<noteq> 12"
    "unat (11 :: 32 word) \<le> length (''01234567890'' @ [NUL])"
    "unat (11 :: 32 word) \<le> 1000000000"
    by (simp_all add: NUL_def)
  have i: "Suc (live_stmts initialized) = 1" "Suc (step_calls initialized) = 2"
    by (simp_all add: initialized_def)
  show ?thesis
    using statements_left_unfinalized [of healthy_engine initialized 0
        "initialized\<lparr>live_stmts := 1, step_calls := 2\<rparr>" "[]" "11" "''01234567890'' @ [NUL]"]
      statements_left_unfinalized [of busy_engine initialized]
    by (simp only: h b s i compiles_initialized query_healthy) simp
qed

section \<open>Decoding of result rows\<close>

text \<open>
  C8 as stated fails: the code never asks for the byte length of a row. A select whose
  only row has 12 bytes instead of the 8 of \<^verbatim>\<open>struct example_agg_f_s\<close> is read like any
  other: the function logs the \<^verbatim>\<open>int\<close> at offset 4 (here 85) and returns 0. A row
  without bytes is read through the null pointer, which is no report of an error
  either.
\<close>

theorem row_length_unchecked_counterexample:
  "fst (select_step long_row_engine 0) = SQLITE_ROW
   \<and> length (snd (select_step long_row_engine 0)) = 12
   \<and> sizeof_example_agg_f_s = 8
   \<and> example_custom_aggregate_query long_row_engine initialized
       = Some (0, initialized\<lparr>live_stmts := 1, step_calls := 3\<rparr>, [85])
   \<and> select_step null_row_engine 0 = (SQLITE_ROW, [])
   \<and> example_custom_aggregate_query null_row_engine initialized = None"
proof -
  have p: "fault null_row_engine API_prepare = SQLITE_OK"
    and s0: "select_step null_row_engine 0 = (SQLITE_ROW, [])"
    by (simp_all add: null_row_engine_def)
  have n: "example_custom_aggregate_query null_row_engine initialized = None"
    unfolding query_prepared [OF p compiles_initialized(1)]
    by (subst aggregate_query_loop.simps)
      (simp add: EXAMPLE_MAX_QUERY_LOOP_STEPS_def step_select s0 res_aggregate_def
        sqlite3_column_blob_def rc_defs)
  have "example_custom_aggregate_query long_row_engine initialized
          = Some (0, initialized\<lparr>live_stmts := Suc (live_stmts initialized),
                       step_calls := step_calls initialized + length [[155, 31, 0, 0, 85, 0, 0, 0, 1, 2, 3, 4 :: 8 word]] + 1\<rparr>,
                 map (\<lambda>b. sint (bytes_int (take 4 (drop 4 b)))) [[155, 31, 0, 0, 85, 0, 0, 0, 1, 2, 3, 4]])"
    by (rule query_rows [OF _ compiles_initialized(1)])
      (simp_all add: long_row_engine_def EXAMPLE_MAX_QUERY_LOOP_STEPS_def)
  then show ?thesis
    using n
    by (simp add: long_row_engine_def null_row_engine_def sizeof_example_agg_f_s_def
        bytes_int_def initialized_def)
qed

text \<open>
  C8, amended. When the statement was prepared and the select yields the rows \<open>blobs\<close>,
  each of at least 8 bytes, and then reports \<^verbatim>\<open>SQLITE_DONE\<close> before the cap, the function
  returns 0 and has logged, for each row in order, the \<^verbatim>\<open>int\<close> stored at byte offset 4
  of the row's bytes, whatever the length of the row; no decoding error exists. Read
  this way, the bytes of an accumulator (guard, then running sum), followed by any
  further bytes, give back its running sum.
\<close>

theorem rows_read_without_length_check:
  assumes "fault E API_prepare = SQLITE_OK" and "compiles db Select_example_agg_f"
    and "length blobs < EXAMPLE_MAX_QUERY_LOOP_STEPS"
    and "\<forall>j < length blobs. select_step E j = (SQLITE_ROW, blobs ! j) \<and> 8 \<le> length (blobs ! j)"
    and "fst (select_step E (length blobs)) = SQLITE_DONE"
  shows "example_custom_aggregate_query E db =
           Some (0, db\<lparr>live_stmts := Suc (live_stmts db),
                       step_calls := step_calls db + length blobs + 1\<rparr>,
                 map (\<lambda>b. sint (bytes_int (take 4 (drop 4 b)))) blobs)
       \<and> bytes_int (take 4 (drop 4 (struct_bytes a @ extra))) = aggregate a"
proof -
  have "take 4 (drop 4 (struct_bytes a @ extra)) = int_bytes (aggregate a)"
    by (simp add: struct_bytes_def length_int_bytes)
  then show ?thesis
    using query_rows [OF assms] by (simp add: bytes_int_int_bytes)
qed

theorem rows_read_without_length_check_witness:
  "example_custom_aggregate_query long_row_engine initialized
       = Some (0, initialized\<lparr>live_stmts := 1, step_calls := 3\<rparr>, [85])"
proof -
  have "example_custom_aggregate_query long_row_engine initialized
          = Some (0, initialized\<lparr>live_stmts := Suc (live_stmts initialized),
                       step_calls := step_calls initialized + length [[155, 31, 0, 0, 85, 0, 0, 0, 1, 2, 3, 4 :: 8 word]] + 1\<rparr>,
                 map (\<lambda>b. sint (bytes_int (take 4 (drop 4 b)))) [[155, 31, 0, 0, 85, 0, 0, 0, 1, 2, 3, 4]])"
    by (rule rows_read_without_length_check [OF _ compiles_initialized(1), THEN conjunct1])
      (simp_all add: long_row_engine_def EXAMPLE_MAX_QUERY_LOOP_STEPS_def)
  then show ?thesis
    by (simp add: bytes_int_def initialized_def)
qed

section \<open>Where the main database lives\<close>

text \<open>
  C3 does not hold of the code. The flags that \<^verbatim>\<open>example_init\<close> passes contain
  \<^verbatim>\<open>SQLITE_OPEN_MEMORY\<close>, so the engine opens the main database in memory and does not
  look at the file: whatever the filesystem holds, also the file that an earlier run
  would have written, a run with a healthy engine starts from an empty main database,
  applies the full schema again and ends with no device row. The tables \<^verbatim>\<open>measured\<close>
  and \<^verbatim>\<open>setpoint\<close> are created in the attached in-memory database \<^verbatim>\<open>state\<close>.
\<close>

theorem example_init_opens_in_memory:
  "example_init_open_flags AND SQLITE_OPEN_MEMORY \<noteq> 0
   \<and> sqlite3_open_v2 healthy_engine fs ''db.sqlite'' example_init_open_flags
       = (SQLITE_OK, Some (new_connection In_memory empty_database))
   \<and> example_init healthy_engine fs = (0, Some initialized)
   \<and> main_storage initialized = In_memory
   \<and> files_of_previous_run ''db.sqlite''
       = Some \<lparr>db_user_version = 1,
               db_tables = [devices_table, outputs_table, groups_table],
               db_devices = [''012345678901'']\<rparr>
   \<and> example_init healthy_engine files_of_previous_run = (0, Some initialized)
   \<and> db_devices (main_db initialized) = []
   \<and> attached initialized
       = [(''state'', \<lparr>db_user_version = 0, db_tables = [measured_table, setpoint_table],
                       db_devices = []\<rparr>)]"
  by (simp add: example_init_any_files)
    (simp add: example_init_open_flags_def SQLITE_OPEN_MEMORY_def SQLITE_OPEN_CREATE_def
      SQLITE_OPEN_READWRITE_def sqlite3_open_v2_def healthy_engine_def initialized_def
      files_of_previous_run_def)

end
